theory Spec2Isabelle
  imports Complex_Main "HOL-Library.Sublist"
begin

section \<open>Numbers, vectors and checked access\<close>

text \<open>
  The C++ sources compute on \<open>double\<close>. The kinematic quantities (positions, joint
  deltas, condition numbers, thresholds, durations) are embedded as \<open>real\<close>: every
  comparison of the source is kept as written, rounding is not modelled. \<open>std::vector\<close> and
  Eigen vectors are lists; a matrix is the list of its rows.

  \<open>std::vector::at\<close> throws \<open>std::out_of_range\<close>; an unchecked \<open>operator[]\<close> past the end of
  a container is undefined behaviour. Both are results of the model, not unspecified HOL
  values. So is the NaN of a command in the functions that scale it to reals: they run on
  validated commands, which hold no NaN.
\<close>

datatype error = OutOfRange | UndefinedBehaviour | NotANumber

definition bind_result :: "error + 'a \<Rightarrow> ('a \<Rightarrow> error + 'b) \<Rightarrow> error + 'b" where
  "bind_result r f = (case r of Inl e \<Rightarrow> Inl e | Inr x \<Rightarrow> f x)"

lemma bind_result_cong [fundef_cong]:
  "r = r' \<Longrightarrow> (\<And>x. r' = Inr x \<Longrightarrow> f x = f' x) \<Longrightarrow> bind_result r f = bind_result r' f'"
  by (cases r') (simp_all add: bind_result_def)

lemma bind_result_simps [simp]:
  "bind_result (Inl e) f = Inl e"
  "bind_result (Inr x) f = f x"
  by (simp_all add: bind_result_def)

definition vector_at :: "'a list \<Rightarrow> nat \<Rightarrow> error + 'a" where
  "vector_at xs i = (if i < length xs then Inr (xs ! i) else Inl OutOfRange)"

text \<open>
  A division of \<open>double\<close>s raises nothing: the quotient by zero of a positive number is
  \<open>+inf\<close>, of a negative number \<open>-inf\<close> and of zero NaN. The quotients that the source
  computes without testing the divisor, and what it stores them in (the velocities and
  accelerations of the joint state and of the outgoing message), are therefore values of
  the reals extended by the two infinities and a NaN. A zero divisor of the model is the
  positive zero; the negative zero is not modelled. Arithmetic on the infinities and on
  NaN is that of IEEE 754, and every comparison with a NaN is false.
\<close>

datatype extended = QNaN | MInf | PInf | Fin real

definition quotient :: "real \<Rightarrow> real \<Rightarrow> extended" where
  "quotient a b =
     (if b \<noteq> 0 then Fin (a / b)
      else if a > 0 then PInf
      else if a < 0 then MInf
      else QNaN)"

fun extended_quotient :: "extended \<Rightarrow> real \<Rightarrow> extended" where
  "extended_quotient (Fin a) b = quotient a b"
| "extended_quotient PInf b = (if b < 0 then MInf else PInf)"
| "extended_quotient MInf b = (if b < 0 then PInf else MInf)"
| "extended_quotient QNaN b = QNaN"

fun difference :: "extended \<Rightarrow> extended \<Rightarrow> extended" where
  "difference (Fin a) (Fin b) = Fin (a - b)"
| "difference QNaN y = QNaN"
| "difference x QNaN = QNaN"
| "difference PInf PInf = QNaN"
| "difference MInf MInf = QNaN"
| "difference PInf y = PInf"
| "difference MInf y = MInf"
| "difference (Fin a) PInf = MInf"
| "difference (Fin a) MInf = PInf"

fun less_than :: "extended \<Rightarrow> real \<Rightarrow> bool" where
  "less_than (Fin a) b = (a < b)"
| "less_than MInf b = True"
| "less_than PInf b = False"
| "less_than QNaN b = False"

fun greater_than :: "extended \<Rightarrow> real \<Rightarrow> bool" where
  "greater_than (Fin a) b = (a > b)"
| "greater_than PInf b = True"
| "greater_than MInf b = False"
| "greater_than QNaN b = False"

definition dot :: "real list \<Rightarrow> real list \<Rightarrow> real" where
  "dot a b = sum_list (map2 (*) a b)"

text \<open>\<open>std::find\<close> followed by \<open>std::distance\<close>: the index of the first occurrence, or the
  length of the list when there is none.\<close>

fun find_distance :: "'a \<Rightarrow> 'a list \<Rightarrow> nat" where
  "find_distance x [] = 0"
| "find_distance x (y # ys) = (if y = x then 0 else Suc (find_distance x ys))"

text \<open>\<open>std::vector::resize\<close> with value-initialised new elements \<open>d\<close>.\<close>

definition resize :: "nat \<Rightarrow> 'a \<Rightarrow> 'a list \<Rightarrow> 'a list" where
  "resize n d xs = take n xs @ replicate (n - length xs) d"

text \<open>
  Times are \<open>rclcpp::Time\<close> values, counted in nanoseconds; \<open>rclcpp::Time(0.)\<close> is 0.
  \<open>rclcpp::Duration::from_seconds\<close> truncates to whole nanoseconds.
\<close>

type_synonym Time = int

definition from_seconds :: "real \<Rightarrow> int" where
  "from_seconds s = (if s \<ge> 0 then \<lfloor>s * 1000000000\<rfloor> else \<lceil>s * 1000000000\<rceil>)"

text \<open>
  The components of an incoming command are \<open>double\<close>s that may be NaN, which the command
  validation tests for: a component is NaN or a number. Every comparison with NaN is false,
  except \<open>!=\<close>.
\<close>

datatype double = NaN | Val real

fun isnan :: "double \<Rightarrow> bool" where
  "isnan NaN = True"
| "isnan (Val x) = False"

fun fabs_gt :: "double \<Rightarrow> real \<Rightarrow> bool" where
  "fabs_gt NaN b = False"
| "fabs_gt (Val x) b = (\<bar>x\<bar> > b)"

fun not_equal_zero :: "double \<Rightarrow> bool" where
  "not_equal_zero NaN = True"
| "not_equal_zero (Val x) = (x \<noteq> 0)"

fun number :: "double \<Rightarrow> error + real" where
  "number NaN = Inl NotANumber"
| "number (Val x) = Inr x"

section \<open>moveit\_servo: servo\_calcs.cpp\<close>

datatype StatusCode =
    NO_WARNING
  | DECELERATE_FOR_COLLISION
  | HALT_FOR_COLLISION
  | DECELERATE_FOR_SINGULARITY
  | HALT_FOR_SINGULARITY
  | JOINT_BOUND

datatype ServoType = CARTESIAN_SPACE | JOINT_SPACE

text \<open>The fields of \<open>ServoParameters\<close> that the modelled functions read.\<close>

record ServoParameters =
  publish_period :: real
  command_in_type :: string
  lower_singularity_threshold :: real
  hard_stop_singularity_threshold :: real
  joint_limit_margin :: real
  halt_all_joints_in_joint_mode :: bool
  halt_all_joints_in_cartesian_mode :: bool
  publish_joint_positions :: bool
  publish_joint_velocities :: bool
  publish_joint_accelerations :: bool
  use_gazebo :: bool
  incoming_command_timeout :: real
  num_outgoing_halt_msgs_to_publish :: int
  linear_scale :: real
  rotational_scale :: real
  joint_scale :: real
  planning_frame :: string
  ee_frame_name :: string
  command_out_type :: string

subsection \<open>Messages, joint models and the state of ServoCalcs\<close>

text \<open>The data members of \<open>ServoCalcs\<close> are written without the trailing underscore of the
  source (\<open>status_\<close> is \<open>status\<close>), which Isabelle reserves for internal names. The two
  \<open>std::array<bool, 6>\<close> members, \<open>drift_dimensions\<close> and \<open>control_dimensions\<close>, are lists
  of six flags.\<close>

record JointState =
  name :: "string list"
  position :: "real list"
  velocity :: "extended list"

record JointTrajectoryPoint =
  positions :: "real list"
  velocities :: "extended list"
  accelerations :: "extended list"
  time_from_start :: int

record JointTrajectory =
  traj_stamp :: Time
  traj_frame_id :: string
  joint_names :: "string list"
  points :: "JointTrajectoryPoint list"

definition empty_point :: JointTrajectoryPoint where
  "empty_point = \<lparr>positions = [], velocities = [], accelerations = [], time_from_start = 0\<rparr>"

definition empty_trajectory :: JointTrajectory where
  "empty_trajectory = \<lparr>traj_stamp = 0, traj_frame_id = [], joint_names = [], points = []\<rparr>"

record TwistStamped =
  twist_stamp :: Time
  twist_frame_id :: string
  linear_x :: double
  linear_y :: double
  linear_z :: double
  angular_x :: double
  angular_y :: double
  angular_z :: double

record JointJog =
  jog_stamp :: Time
  jog_joint_names :: "string list"
  jog_velocities :: "double list"

text \<open>What the servo code reads of a \<open>moveit::core::JointModel\<close>: its name and its
  \<open>getVariableBoundsMsg()\<close>, of which only the first entry's position bounds are used.\<close>

record JointLimits =
  min_position :: real
  max_position :: real

record JointModel =
  getName :: string
  getVariableBoundsMsg :: "JointLimits list"

text \<open>
  Modelled from the spec: \<open>JointModel::satisfiesPositionBounds\<close> is part of the robot-model
  library, which is not among the sources. By section 4.C6 a joint is a halt candidate
  when its position is "within joint\_limit\_margin of an absolute bound": with a margin
  \<open>m\<close> the bounds are satisfied when the value lies in \<open>[min - m, max + m]\<close>, and a joint
  without position bounds satisfies them always.
\<close>

definition satisfiesPositionBounds :: "JointModel \<Rightarrow> real \<Rightarrow> real \<Rightarrow> bool" where
  "satisfiesPositionBounds joint v margin =
     (case getVariableBoundsMsg joint of
        [] \<Rightarrow> True
      | l # _ \<Rightarrow> \<not> (v < min_position l - margin \<or> v > max_position l + margin))"

text \<open>
  The collaborators of one servo cycle, outside the servo code: the smoothing plugin
  (\<open>doSmoothing\<close>, \<open>reset\<close>, over its own state \<open>'s\<close>), \<open>enforceVelocityLimits\<close> of
  enforce\_limits.hpp, the clock, and what the planning-scene monitor and the robot model
  return in this cycle: the joint positions and velocities of the group, its active joint
  models, the rotation from the planning frame to a named link frame (the \<open>linear()\<close> part
  of the isometry, as a map on 3-vectors; the servo calculations use no other part of the
  cached transforms), the Jacobian, and the step of Eigen and the robot model on it:
  \<open>pseudo_inverse * delta_x\<close> from the thin SVD, the last column of U, and the condition
  numbers of the Jacobian before and after the look-ahead perturbation.
\<close>

record IKStep =
  pseudo_inverse_delta_x :: "real list"
  u_last_column :: "real list"
  ini_condition_number :: real
  new_condition_number :: real

record 's Collaborators =
  doSmoothing :: "'s \<Rightarrow> real list \<Rightarrow> real list \<times> 's"
  smoother_reset :: "'s \<Rightarrow> real list \<Rightarrow> 's"
  enforceVelocityLimits :: "real list \<Rightarrow> real list"
  now :: Time
  getActiveJointModels :: "JointModel list"
  copyJointGroupPositions :: "real list"
  copyJointGroupVelocities :: "extended list"
  frame_rotation :: "string \<Rightarrow> real \<times> real \<times> real \<Rightarrow> real \<times> real \<times> real"
  getJacobian :: "real list list"
  jacobi_svd_step :: "real list list \<Rightarrow> real list \<Rightarrow> IKStep"

record 's ServoCalcs =
  status :: StatusCode
  done_stopping :: bool
  paused :: bool
  wait_for_servo_commands :: bool
  updated_filters :: bool
  have_nonzero_command :: bool
  have_nonzero_twist_stamped :: bool
  have_nonzero_joint_command :: bool
  twist_command_is_stale :: bool
  joint_command_is_stale :: bool
  ok_to_publish :: bool
  zero_velocity_count :: int
  num_joints :: nat
  internal_joint_state :: JointState
  original_joint_state :: JointState
  joint_state_name_map :: "string \<rightharpoonup> nat"
  twist_stamped_cmd :: TwistStamped
  joint_servo_cmd :: JointJog
  latest_twist_stamped :: "TwistStamped option"
  latest_joint_cmd :: "JointJog option"
  latest_twist_command_stamp :: Time
  latest_joint_command_stamp :: Time
  latest_twist_cmd_is_nonzero :: bool
  latest_joint_cmd_is_nonzero :: bool
  new_input_cmd :: bool
  delta_theta :: "real list"
  last_sent_command :: JointTrajectory
  collision_velocity_scale :: real
  drift_dimensions :: "bool list"
  control_dimensions :: "bool list"
  gazebo_redundant_message_count :: int
  robot_link_command_frame :: string
  tf_moveit_to_robot_cmd_frame :: "real \<times> real \<times> real \<Rightarrow> real \<times> real \<times> real"
  tf_moveit_to_ee_frame :: "real \<times> real \<times> real \<Rightarrow> real \<times> real \<times> real"
  smoother :: 's

definition STOPPED_VELOCITY_EPS :: real where "STOPPED_VELOCITY_EPS = 0.0001"

subsection \<open>isNonZero and the command callbacks\<close>

definition isNonZero_TwistStamped :: "TwistStamped \<Rightarrow> bool" where
  "isNonZero_TwistStamped msg =
     (not_equal_zero (linear_x msg) \<or> not_equal_zero (linear_y msg) \<or>
      not_equal_zero (linear_z msg) \<or> not_equal_zero (angular_x msg) \<or>
      not_equal_zero (angular_y msg) \<or> not_equal_zero (angular_z msg))"

definition isNonZero_JointJog :: "JointJog \<Rightarrow> bool" where
  "isNonZero_JointJog msg =
     (\<not> fold (\<lambda>delta all_zeros. all_zeros \<and> \<not> not_equal_zero delta) (jog_velocities msg) True)"

definition twistStampedCB :: "TwistStamped \<Rightarrow> 's ServoCalcs \<Rightarrow> 's ServoCalcs" where
  "twistStampedCB msg s =
     s\<lparr>latest_twist_stamped := Some msg,
       latest_twist_cmd_is_nonzero := isNonZero_TwistStamped msg,
       latest_twist_command_stamp :=
         (if twist_stamp msg \<noteq> 0 then twist_stamp msg else latest_twist_command_stamp s),
       new_input_cmd := True\<rparr>"

definition jointCmdCB :: "JointJog \<Rightarrow> 's ServoCalcs \<Rightarrow> 's ServoCalcs" where
  "jointCmdCB msg s =
     s\<lparr>latest_joint_cmd := Some msg,
       latest_joint_cmd_is_nonzero := isNonZero_JointJog msg,
       latest_joint_command_stamp :=
         (if jog_stamp msg \<noteq> 0 then jog_stamp msg else latest_joint_command_stamp s),
       new_input_cmd := True\<rparr>"

subsection \<open>checkValidCommand\<close>

fun checkValidCommand_velocities :: "double list \<Rightarrow> bool" where
  "checkValidCommand_velocities [] = True"
| "checkValidCommand_velocities (v # rest) =
     (if isnan v then False else checkValidCommand_velocities rest)"

definition checkValidCommand_JointJog :: "JointJog \<Rightarrow> bool" where
  "checkValidCommand_JointJog cmd = checkValidCommand_velocities (jog_velocities cmd)"

definition checkValidCommand_TwistStamped :: "ServoParameters \<Rightarrow> TwistStamped \<Rightarrow> bool" where
  "checkValidCommand_TwistStamped parameters cmd =
     (if isnan (linear_x cmd) \<or> isnan (linear_y cmd) \<or> isnan (linear_z cmd) \<or>
         isnan (angular_x cmd) \<or> isnan (angular_y cmd) \<or> isnan (angular_z cmd)
      then False
      else if command_in_type parameters = ''unitless'' \<and>
              (fabs_gt (linear_x cmd) 1 \<or> fabs_gt (linear_y cmd) 1 \<or> fabs_gt (linear_z cmd) 1 \<or>
               fabs_gt (angular_x cmd) 1 \<or> fabs_gt (angular_y cmd) 1 \<or>
               fabs_gt (angular_z cmd) 1)
      then False
      else True)"

subsection \<open>Scaling of commands\<close>

definition twist_vector :: "double \<Rightarrow> double \<Rightarrow> double \<Rightarrow> error + real \<times> real \<times> real" where
  "twist_vector x y z =
     bind_result (number x) (\<lambda>a.
     bind_result (number y) (\<lambda>b.
     bind_result (number z) (\<lambda>c. Inr (a, b, c))))"

definition scaleCartesianCommand :: "ServoParameters \<Rightarrow> TwistStamped \<Rightarrow> error + real list" where
  "scaleCartesianCommand parameters command =
     bind_result (twist_vector (linear_x command) (linear_y command) (linear_z command))
       (\<lambda>(lx, ly, lz).
     bind_result (twist_vector (angular_x command) (angular_y command) (angular_z command))
       (\<lambda>(ax, ay, az).
        Inr (if command_in_type parameters = ''unitless'' then
               [linear_scale parameters * publish_period parameters * lx,
                linear_scale parameters * publish_period parameters * ly,
                linear_scale parameters * publish_period parameters * lz,
                rotational_scale parameters * publish_period parameters * ax,
                rotational_scale parameters * publish_period parameters * ay,
                rotational_scale parameters * publish_period parameters * az]
             else if command_in_type parameters = ''speed_units'' then
               [lx * publish_period parameters, ly * publish_period parameters,
                lz * publish_period parameters, ax * publish_period parameters,
                ay * publish_period parameters, az * publish_period parameters]
             else [0, 0, 0, 0, 0, 0])))"

text \<open>The loop of \<open>scaleJointCommand\<close> over the joint names of the command, at index \<open>m\<close>.
  \<open>command.velocities[m]\<close> and \<open>result[c]\<close> are unchecked.\<close>

fun scaleJointCommand_loop ::
  "ServoParameters \<Rightarrow> (string \<rightharpoonup> nat) \<Rightarrow> double list \<Rightarrow> nat \<Rightarrow> string list \<Rightarrow> real list
     \<Rightarrow> error + real list"
where
  "scaleJointCommand_loop parameters name_map command_velocities m [] result = Inr result"
| "scaleJointCommand_loop parameters name_map command_velocities m (joint_name # rest) result =
     (case name_map joint_name of
        None \<Rightarrow> scaleJointCommand_loop parameters name_map command_velocities (m + 1) rest result
      | Some c \<Rightarrow>
          if command_in_type parameters = ''unitless'' \<or>
             command_in_type parameters = ''speed_units''
          then
            (if m < length command_velocities \<and> c < length result then
               (case number (command_velocities ! m) of
                  Inl e \<Rightarrow> Inl e
                | Inr v \<Rightarrow>
                    scaleJointCommand_loop parameters name_map command_velocities (m + 1) rest
                      (result[c :=
                         (if command_in_type parameters = ''unitless''
                          then v * joint_scale parameters * publish_period parameters
                          else v * publish_period parameters)]))
             else Inl UndefinedBehaviour)
          else scaleJointCommand_loop parameters name_map command_velocities (m + 1) rest result)"

definition scaleJointCommand ::
  "ServoParameters \<Rightarrow> 's ServoCalcs \<Rightarrow> JointJog \<Rightarrow> error + real list"
where
  "scaleJointCommand parameters s command =
     scaleJointCommand_loop parameters (joint_state_name_map s) (jog_velocities command) 0
       (jog_joint_names command) (replicate (num_joints s) 0)"

definition enforceControlDimensions :: "bool list \<Rightarrow> TwistStamped \<Rightarrow> TwistStamped" where
  "enforceControlDimensions control command =
     command\<lparr>linear_x := (if \<not> control ! 0 then Val 0 else linear_x command),
             linear_y := (if \<not> control ! 1 then Val 0 else linear_y command),
             linear_z := (if \<not> control ! 2 then Val 0 else linear_z command),
             angular_x := (if \<not> control ! 3 then Val 0 else angular_x command),
             angular_y := (if \<not> control ! 4 then Val 0 else angular_y command),
             angular_z := (if \<not> control ! 5 then Val 0 else angular_z command)\<rparr>"

subsection \<open>applyJointUpdate\<close>

text \<open>The second loop of \<open>applyJointUpdate\<close>, at index \<open>i\<close>: \<open>position.at(i)\<close> and
  \<open>original_joint_state.position.at(i)\<close> are checked, \<open>velocity[i]\<close> is not.\<close>

function applyJointUpdate_velocities ::
  "real \<Rightarrow> real list \<Rightarrow> real list \<Rightarrow> nat \<Rightarrow> extended list \<Rightarrow> error + extended list"
where
  "applyJointUpdate_velocities period position_new position_original i velocity_cur =
     (if i < length position_new then
        bind_result (vector_at position_new i) (\<lambda>p.
        bind_result (vector_at position_original i) (\<lambda>orig.
          if i < length velocity_cur
          then applyJointUpdate_velocities period position_new position_original (i + 1)
                 (velocity_cur[i := quotient (p - orig) period])
          else Inl UndefinedBehaviour))
      else Inr velocity_cur)"
  by pat_completeness auto
termination
  by (relation "measure (\<lambda>(_, position_new, _, i, _). length position_new - i)") auto

declare applyJointUpdate_velocities.simps [simp del]

text \<open>\<open>applyJointUpdate\<close> returns its \<open>bool\<close>, the joint state and the state of the smoother.\<close>

definition applyJointUpdate ::
  "'s Collaborators \<Rightarrow> ServoParameters \<Rightarrow> 's ServoCalcs \<Rightarrow> real list \<Rightarrow> JointState
     \<Rightarrow> error + bool \<times> JointState \<times> 's"
where
  "applyJointUpdate c parameters s dtheta joint_state =
     (if length (position joint_state) \<noteq> length dtheta \<or>
         length (velocity joint_state) \<noteq> length (position joint_state)
      then Inr (False, joint_state, smoother s)
      else
        (let incremented = map2 (+) (position joint_state) dtheta;
             smoothed = doSmoothing c (smoother s) incremented
         in bind_result
              (applyJointUpdate_velocities (publish_period parameters) (fst smoothed)
                 (position (original_joint_state s)) 0 (velocity joint_state))
              (\<lambda>vel. Inr (True, joint_state\<lparr>position := fst smoothed, velocity := vel\<rparr>,
                           snd smoothed))))"

subsection \<open>enforcePositionLimits and suddenHalt\<close>

text \<open>The inner loop of \<open>enforcePositionLimits\<close> over \<open>joint_state.name\<close>, at index \<open>c\<close>: it
  leaves \<open>joint_angle\<close> as it was when the name is not found.\<close>

fun lookup_joint_angle :: "string list \<Rightarrow> nat \<Rightarrow> real list \<Rightarrow> string \<Rightarrow> real \<Rightarrow> error + real" where
  "lookup_joint_angle [] c position_cur joint_name joint_angle = Inr joint_angle"
| "lookup_joint_angle (n # names) c position_cur joint_name joint_angle =
     (if n = joint_name then vector_at position_cur c
      else lookup_joint_angle names (c + 1) position_cur joint_name joint_angle)"

fun enforcePositionLimits_loop ::
  "ServoParameters \<Rightarrow> JointState \<Rightarrow> JointModel list \<Rightarrow> real \<Rightarrow> JointModel list
     \<Rightarrow> error + JointModel list"
where
  "enforcePositionLimits_loop parameters joint_state [] joint_angle joints_to_halt =
     Inr joints_to_halt"
| "enforcePositionLimits_loop parameters joint_state (joint # joints) joint_angle0 joints_to_halt =
     (case lookup_joint_angle (name joint_state) 0 (position joint_state) (getName joint)
             joint_angle0 of
        Inl e \<Rightarrow> Inl e
      | Inr joint_angle \<Rightarrow>
          if \<not> satisfiesPositionBounds joint joint_angle (- joint_limit_margin parameters) then
            (case getVariableBoundsMsg joint of
               [] \<Rightarrow> enforcePositionLimits_loop parameters joint_state joints joint_angle
                       joints_to_halt
             | l # _ \<Rightarrow>
                (case vector_at (velocity joint_state)
                        (find_distance (getName joint) (name joint_state)) of
                   Inl e \<Rightarrow> Inl e
                 | Inr v \<Rightarrow>
                     if (less_than v 0 \<and>
                         joint_angle < min_position l + joint_limit_margin parameters) \<or>
                        (greater_than v 0 \<and>
                         joint_angle > max_position l - joint_limit_margin parameters)
                     then enforcePositionLimits_loop parameters joint_state joints joint_angle
                            (joints_to_halt @ [joint])
                     else enforcePositionLimits_loop parameters joint_state joints joint_angle
                            joints_to_halt))
          else enforcePositionLimits_loop parameters joint_state joints joint_angle
                 joints_to_halt)"

definition enforcePositionLimits ::
  "'s Collaborators \<Rightarrow> ServoParameters \<Rightarrow> JointState \<Rightarrow> error + JointModel list"
where
  "enforcePositionLimits c parameters joint_state =
     enforcePositionLimits_loop parameters joint_state (getActiveJointModels c) 0 []"

fun suddenHalt :: "'s ServoCalcs \<Rightarrow> JointState \<Rightarrow> JointModel list \<Rightarrow> error + JointState" where
  "suddenHalt s joint_state [] = Inr joint_state"
| "suddenHalt s joint_state (joint_to_halt # joints_to_halt) =
     (let joint_index = find_distance (getName joint_to_halt) (name joint_state) in
      if joint_index \<noteq> length (name joint_state) then
        (case vector_at (position (original_joint_state s)) joint_index of
           Inl e \<Rightarrow> Inl e
         | Inr original_position \<Rightarrow>
             if joint_index < length (position joint_state) \<and>
                joint_index < length (velocity joint_state)
             then suddenHalt s
                    (joint_state\<lparr>position := (position joint_state)[joint_index := original_position],
                                 velocity := (velocity joint_state)[joint_index := Fin 0]\<rparr>)
                    joints_to_halt
             else Inl OutOfRange)
      else suddenHalt s joint_state joints_to_halt)"

subsection \<open>Composing the outgoing message\<close>

definition composeJointTrajMessage ::
  "ServoParameters \<Rightarrow> 's ServoCalcs \<Rightarrow> JointState \<Rightarrow> JointTrajectory \<Rightarrow> JointTrajectory"
where
  "composeJointTrajMessage parameters s joint_state joint_trajectory =
     joint_trajectory
       \<lparr>traj_stamp := 0,
        traj_frame_id := planning_frame parameters,
        joint_names := name joint_state,
        points := points joint_trajectory @
          [\<lparr>positions = (if publish_joint_positions parameters then position joint_state else []),
            velocities = (if publish_joint_velocities parameters then velocity joint_state else []),
            accelerations =
              (if publish_joint_accelerations parameters then replicate (num_joints s) (Fin 0)
               else []),
            time_from_start = from_seconds (publish_period parameters)\<rparr>]\<rparr>"

definition insertRedundantPointsIntoTrajectory ::
  "ServoParameters \<Rightarrow> JointTrajectory \<Rightarrow> int \<Rightarrow> JointTrajectory"
where
  "insertRedundantPointsIntoTrajectory parameters joint_trajectory count =
     (if count < 2 then joint_trajectory
      else
        (let resized = resize (nat count) empty_point (points joint_trajectory);
             point = hd resized
         in joint_trajectory
              \<lparr>points := hd resized #
                 map (\<lambda>i. point\<lparr>time_from_start :=
                              from_seconds ((real i + 1) * publish_period parameters)\<rparr>)
                   [1..<nat count]\<rparr>))"

subsection \<open>internalServoUpdate\<close>

text \<open>The block of \<open>internalServoUpdate\<close> under "Enforce SRDF position limits": the joints
  to halt are computed, and when there are any the status code is set and they, or all
  active joints, are halted.\<close>

definition halt_for_position_limits ::
  "'s Collaborators \<Rightarrow> ServoParameters \<Rightarrow> ServoType \<Rightarrow> 's ServoCalcs \<Rightarrow> error + 's ServoCalcs"
where
  "halt_for_position_limits c parameters servo_type s =
     bind_result (enforcePositionLimits c parameters (internal_joint_state s))
       (\<lambda>joints_to_halt.
          if joints_to_halt \<noteq> [] then
            bind_result
              (if (servo_type = JOINT_SPACE \<and> \<not> halt_all_joints_in_joint_mode parameters) \<or>
                  (servo_type = CARTESIAN_SPACE \<and>
                     \<not> halt_all_joints_in_cartesian_mode parameters)
               then suddenHalt s (internal_joint_state s) joints_to_halt
               else suddenHalt s (internal_joint_state s) (getActiveJointModels c))
              (\<lambda>halted. Inr (s\<lparr>status := JOINT_BOUND, internal_joint_state := halted\<rparr>))
          else Inr s)"

text \<open>\<open>delta_theta\<close> is passed by reference: the function returns its \<open>bool\<close>, the state, the
  final \<open>delta_theta\<close> and the trajectory message.\<close>

definition internalServoUpdate ::
  "'s Collaborators \<Rightarrow> ServoParameters \<Rightarrow> 's ServoCalcs \<Rightarrow> real list \<Rightarrow> JointTrajectory
     \<Rightarrow> ServoType \<Rightarrow> error + bool \<times> 's ServoCalcs \<times> real list \<times> JointTrajectory"
where
  "internalServoUpdate c parameters s0 delta_theta0 joint_trajectory servo_type =
     (let s1 = s0\<lparr>internal_joint_state := original_joint_state s0\<rparr>;
          collision_scale = collision_velocity_scale s1;
          s2 = (if collision_scale > 0 \<and> collision_scale < 1
                then s1\<lparr>status := DECELERATE_FOR_COLLISION\<rparr>
                else if collision_scale = 0 then s1\<lparr>status := HALT_FOR_COLLISION\<rparr>
                else s1);
          delta_theta1 = map (\<lambda>d. d * collision_scale) delta_theta0
      in bind_result (applyJointUpdate c parameters s2 delta_theta1 (internal_joint_state s2))
           (\<lambda>(ok, joint_state1, smoother1).
              let s3 = s2\<lparr>internal_joint_state := joint_state1, smoother := smoother1\<rparr> in
              if \<not> ok then Inr (False, s3, delta_theta1, joint_trajectory)
              else
                (let s4 = s3\<lparr>updated_filters := True\<rparr>;
                     delta_theta2 = enforceVelocityLimits c delta_theta1
                 in bind_result (halt_for_position_limits c parameters servo_type s4)
                      (\<lambda>s5.
                         let composed = composeJointTrajMessage parameters s5
                                          (internal_joint_state s5) joint_trajectory;
                             outgoing =
                               (if use_gazebo parameters
                                then insertRedundantPointsIntoTrajectory parameters composed
                                       (gazebo_redundant_message_count s5)
                                else composed)
                         in Inr (True, s5, delta_theta2, outgoing)))))"

subsection \<open>filteredHalt\<close>

function filteredHalt_velocities ::
  "real \<Rightarrow> real list \<Rightarrow> real list \<Rightarrow> nat \<Rightarrow> nat \<Rightarrow> extended list \<Rightarrow> bool
     \<Rightarrow> error + extended list \<times> bool"
where
  "filteredHalt_velocities period positions_new position_original n i vels stopping =
     (if i < n then
        bind_result (vector_at positions_new i) (\<lambda>p.
        bind_result (vector_at position_original i) (\<lambda>orig.
          let v = quotient (p - orig) period in
          if i < length vels
          then filteredHalt_velocities period positions_new position_original n (i + 1)
                 (vels[i := v])
                 (if greater_than v STOPPED_VELOCITY_EPS then False else stopping)
          else Inl OutOfRange))
      else Inr (vels, stopping))"
  by pat_completeness auto
termination
  by (relation "measure (\<lambda>(_, _, _, n, i, _, _). n - i)") auto

declare filteredHalt_velocities.simps [simp del]

function filteredHalt_accelerations ::
  "real \<Rightarrow> extended list \<Rightarrow> extended list \<Rightarrow> nat \<Rightarrow> nat \<Rightarrow> extended list
     \<Rightarrow> error + extended list"
where
  "filteredHalt_accelerations period vels velocity_original n i accs =
     (if i < n then
        bind_result (vector_at vels i) (\<lambda>v.
        bind_result (vector_at velocity_original i) (\<lambda>orig.
          if i < length accs
          then filteredHalt_accelerations period vels velocity_original n (i + 1)
                 (accs[i := extended_quotient (difference v orig) period])
          else Inl OutOfRange))
      else Inr accs)"
  by pat_completeness auto
termination
  by (relation "measure (\<lambda>(_, _, _, n, i, _). n - i)") auto

declare filteredHalt_accelerations.simps [simp del]

text \<open>\<open>filteredHalt\<close> returns the state (with \<open>done_stopping\<close> and the smoother) and the
  trajectory message, whose points it replaces by a single one. The \<open>assert\<close> on the size
  of the snapshot is not part of a release build; where it would fail, the checked
  accesses of the velocity loop throw.\<close>

definition filteredHalt ::
  "'s Collaborators \<Rightarrow> ServoParameters \<Rightarrow> 's ServoCalcs \<Rightarrow> JointTrajectory
     \<Rightarrow> error + 's ServoCalcs \<times> JointTrajectory"
where
  "filteredHalt c parameters s joint_trajectory =
     (let smoothed = doSmoothing c (smoother s) (position (original_joint_state s)) in
      bind_result
        (if publish_joint_velocities parameters then
           bind_result
             (filteredHalt_velocities (publish_period parameters) (fst smoothed)
                (position (original_joint_state s)) (num_joints s) 0
                (replicate (num_joints s) (Fin 0)) True)
             (\<lambda>(vels, stopping).
                Inr (if stopping then map (\<lambda>_. Fin 0) vels else vels, stopping))
         else Inr ([], True))
        (\<lambda>(vels, stopping).
           bind_result
             (if publish_joint_accelerations parameters then
                filteredHalt_accelerations (publish_period parameters) vels
                  (velocity (original_joint_state s)) (num_joints s) 0
                  (replicate (num_joints s) (Fin 0))
              else Inr [])
             (\<lambda>accs.
                Inr (s\<lparr>done_stopping := stopping, smoother := snd smoothed\<rparr>,
                     joint_trajectory
                       \<lparr>points := [\<lparr>positions = fst smoothed, velocities = vels,
                                    accelerations = accs,
                                    time_from_start =
                                      from_seconds (publish_period parameters)\<rparr>]\<rparr>))))"

subsection \<open>velocityScalingFactorForSingularity\<close>

text \<open>
  The singular value decomposition and the Jacobian of the perturbed joint state come from
  Eigen and the robot model. The function is given what it reads from them: the last
  column of U (\<open>vector_toward_singularity\<close>), the condition number of the current
  Jacobian (\<open>ini_condition\<close>) and that of the Jacobian after the look-ahead step
  (\<open>new_condition\<close>). It returns the scale and the status code it leaves.
\<close>

definition velocityScalingFactorForSingularity ::
  "ServoParameters \<Rightarrow> real list \<Rightarrow> real list \<Rightarrow> real \<Rightarrow> real \<Rightarrow> StatusCode \<Rightarrow> real \<times> StatusCode"
where
  "velocityScalingFactorForSingularity parameters commanded_velocity u_last ini_condition
       new_condition status0 =
     (let vector_toward_singularity =
            (if ini_condition \<ge> new_condition then map uminus u_last else u_last);
          d = dot vector_toward_singularity commanded_velocity
      in if d > 0 then
           (if ini_condition > lower_singularity_threshold parameters \<and>
               ini_condition < hard_stop_singularity_threshold parameters
            then (1 - (ini_condition - lower_singularity_threshold parameters) /
                        (hard_stop_singularity_threshold parameters -
                         lower_singularity_threshold parameters),
                  DECELERATE_FOR_SINGULARITY)
            else if ini_condition > hard_stop_singularity_threshold parameters
            then (0, HALT_FOR_SINGULARITY)
            else (1, status0))
         else (1, status0))"

subsection \<open>removeDimension and removeDriftDimensions\<close>

text \<open>
  \<open>removeDimension\<close> copies the block of rows below \<open>row_to_remove\<close> one row up and then
  shrinks the matrix and the vector by one (\<open>conservativeResize\<close>). The two blocks
  overlap; the copy runs by ascending row, so every row is read before it is overwritten.
  \<open>num_rows\<close> is \<open>rows() - 1\<close> in \<open>unsigned int\<close>; the only caller guards the call by
  \<open>matrix.rows() > 1\<close>, so the subtraction does not wrap there.
\<close>

definition removeDimension ::
  "real list list \<Rightarrow> real list \<Rightarrow> nat \<Rightarrow> real list list \<times> real list"
where
  "removeDimension jacobian delta_x row_to_remove =
     (let num_rows = length jacobian - 1;
          shifted =
            (if row_to_remove < num_rows
             then (take row_to_remove jacobian @
                     take (num_rows - row_to_remove) (drop (row_to_remove + 1) jacobian) @
                     drop num_rows jacobian,
                   take row_to_remove delta_x @
                     take (num_rows - row_to_remove) (drop (row_to_remove + 1) delta_x) @
                     drop num_rows delta_x)
             else (jacobian, delta_x))
      in (take num_rows (fst shifted), take num_rows (snd shifted)))"

text \<open>
  The loop \<open>for (dimension = matrix.rows() - 1; dimension >= 0; --dimension)\<close>: the
  counter \<open>Suc dimension\<close> stands for the iteration that handles row \<open>dimension\<close>.
  \<open>drift_dimensions\<close> is a \<open>std::array<bool, 6>\<close>; reading it past its end is undefined
  behaviour and is the result \<open>None\<close>.
\<close>

fun removeDriftLoop ::
  "bool list \<Rightarrow> nat \<Rightarrow> real list list \<times> real list \<Rightarrow> (real list list \<times> real list) option"
where
  "removeDriftLoop drift 0 md = Some md"
| "removeDriftLoop drift (Suc dimension) md =
     (if dimension < length drift
      then removeDriftLoop drift dimension
             (if drift ! dimension \<and> length (fst md) > 1
              then removeDimension (fst md) (snd md) dimension
              else md)
      else None)"

definition removeDriftDimensions ::
  "bool list \<Rightarrow> real list list \<Rightarrow> real list \<Rightarrow> (real list list \<times> real list) option"
where
  "removeDriftDimensions drift matrix delta_x =
     removeDriftLoop drift (length matrix) (matrix, delta_x)"

subsection \<open>jointServoCalcs and cartesianServoCalcs\<close>

datatype Published =
    StatusMsg StatusCode
  | ConditionMsg real
  | TrajectoryMsg JointTrajectory
  | MultiArrayMsg "extended list"

text \<open>Both return their \<open>bool\<close>, the state and the trajectory message; the Cartesian one
  also the command, which it changes in place, and what it publishes.\<close>

definition jointServoCalcs ::
  "'s Collaborators \<Rightarrow> ServoParameters \<Rightarrow> 's ServoCalcs \<Rightarrow> JointJog \<Rightarrow> JointTrajectory
     \<Rightarrow> error + bool \<times> 's ServoCalcs \<times> JointTrajectory"
where
  "jointServoCalcs c parameters s cmd joint_trajectory =
     (if \<not> checkValidCommand_JointJog cmd then Inr (False, s, joint_trajectory)
      else
        bind_result (scaleJointCommand parameters s cmd) (\<lambda>scaled.
        bind_result
          (internalServoUpdate c parameters (s\<lparr>delta_theta := scaled\<rparr>) scaled joint_trajectory
             JOINT_SPACE)
          (\<lambda>(ok, s1, dtheta, outgoing). Inr (ok, s1\<lparr>delta_theta := dtheta\<rparr>, outgoing))))"

definition cartesianServoCalcs ::
  "'s Collaborators \<Rightarrow> ServoParameters \<Rightarrow> 's ServoCalcs \<Rightarrow> TwistStamped \<Rightarrow> JointTrajectory
     \<Rightarrow> error + bool \<times> 's ServoCalcs \<times> TwistStamped \<times> JointTrajectory \<times> Published list"
where
  "cartesianServoCalcs c parameters s cmd0 joint_trajectory =
     (if \<not> checkValidCommand_TwistStamped parameters cmd0
      then Inr (False, s, cmd0, joint_trajectory, [])
      else
        (let cmd1 = enforceControlDimensions (control_dimensions s) cmd0 in
         bind_result
           (if twist_frame_id cmd1 \<noteq> planning_frame parameters then
              bind_result
                (twist_vector (linear_x cmd1) (linear_y cmd1) (linear_z cmd1))
                (\<lambda>translation_vector.
              bind_result
                (twist_vector (angular_x cmd1) (angular_y cmd1) (angular_z cmd1))
                (\<lambda>angular_vector.
                 let rotation =
                       (if twist_frame_id cmd1 = [] \<or>
                           twist_frame_id cmd1 = robot_link_command_frame s
                        then tf_moveit_to_robot_cmd_frame s
                        else if twist_frame_id cmd1 = ee_frame_name parameters
                        then tf_moveit_to_ee_frame s
                        else frame_rotation c (twist_frame_id cmd1));
                     t = rotation translation_vector;
                     a = rotation angular_vector
                 in Inr (cmd1\<lparr>twist_frame_id := planning_frame parameters,
                              linear_x := Val (fst t), linear_y := Val (fst (snd t)),
                              linear_z := Val (snd (snd t)),
                              angular_x := Val (fst a), angular_y := Val (fst (snd a)),
                              angular_z := Val (snd (snd a))\<rparr>)))
            else Inr cmd1)
           (\<lambda>cmd2.
         bind_result (scaleCartesianCommand parameters cmd2) (\<lambda>delta_x0.
           case removeDriftDimensions (drift_dimensions s) (getJacobian c) delta_x0 of
             None \<Rightarrow> Inl UndefinedBehaviour
           | Some (jacobian, delta_x) \<Rightarrow>
               (let ik = jacobi_svd_step c jacobian delta_x;
                    scaling = velocityScalingFactorForSingularity parameters delta_x
                                (u_last_column ik) (ini_condition_number ik)
                                (new_condition_number ik) (status s);
                    scaled = map (\<lambda>d. d * fst scaling) (pseudo_inverse_delta_x ik);
                    s1 = s\<lparr>status := snd scaling, delta_theta := scaled\<rparr>
                in bind_result
                     (internalServoUpdate c parameters s1 scaled joint_trajectory
                        CARTESIAN_SPACE)
                     (\<lambda>(ok, s2, dtheta, outgoing).
                        Inr (ok, s2\<lparr>delta_theta := dtheta\<rparr>, cmd2, outgoing,
                             [ConditionMsg (ini_condition_number ik)])))))))"

subsection \<open>calculateSingleIteration\<close>

definition updateJoints :: "'s Collaborators \<Rightarrow> 's ServoCalcs \<Rightarrow> 's ServoCalcs" where
  "updateJoints c s =
     (let joint_state = (internal_joint_state s)
                          \<lparr>position := copyJointGroupPositions c,
                           velocity := copyJointGroupVelocities c\<rparr>
      in s\<lparr>internal_joint_state := joint_state, original_joint_state := joint_state\<rparr>)"

definition resetLowPassFilters ::
  "'s Collaborators \<Rightarrow> JointState \<Rightarrow> 's ServoCalcs \<Rightarrow> 's ServoCalcs"
where
  "resetLowPassFilters c joint_state s =
     s\<lparr>smoother := smoother_reset c (smoother s) (position joint_state),
       updated_filters := True\<rparr>"

text \<open>The first part of a cycle, up to the test for waiting or paused: the status is
  published and reset, the joints and the latest commands are read, the stale flags and
  the cached transforms are set.\<close>

definition cycle_inputs :: "'s Collaborators \<Rightarrow> ServoParameters \<Rightarrow> 's ServoCalcs \<Rightarrow> 's ServoCalcs" where
  "cycle_inputs c parameters s0 =
     (let s1 = updateJoints c (s0\<lparr>status := NO_WARNING\<rparr>);
          s2 = (case latest_twist_stamped s1 of
                  Some msg \<Rightarrow> s1\<lparr>twist_stamped_cmd := msg\<rparr> | None \<Rightarrow> s1);
          s3 = (case latest_joint_cmd s2 of
                  Some msg \<Rightarrow> s2\<lparr>joint_servo_cmd := msg\<rparr> | None \<Rightarrow> s2);
          s4 = s3\<lparr>twist_command_is_stale :=
                     (now c - latest_twist_command_stamp s3 \<ge>
                        from_seconds (incoming_command_timeout parameters)),
                   joint_command_is_stale :=
                     (now c - latest_joint_command_stamp s3 \<ge>
                        from_seconds (incoming_command_timeout parameters)),
                   have_nonzero_twist_stamped := latest_twist_cmd_is_nonzero s3,
                   have_nonzero_joint_command := latest_joint_cmd_is_nonzero s3,
                   tf_moveit_to_robot_cmd_frame := frame_rotation c (robot_link_command_frame s3),
                   tf_moveit_to_ee_frame := frame_rotation c (ee_frame_name parameters)\<rparr>
      in s4\<lparr>have_nonzero_command :=
               (have_nonzero_twist_stamped s4 \<or> have_nonzero_joint_command s4),
             updated_filters := False\<rparr>)"

text \<open>The publication at the end of a cycle. \<open>points[0]\<close> of an empty trajectory is
  undefined behaviour.\<close>

definition clear_unrequested :: "ServoParameters \<Rightarrow> JointTrajectory \<Rightarrow> error + JointTrajectory" where
  "clear_unrequested parameters joint_trajectory =
     (if publish_joint_positions parameters \<and> publish_joint_velocities parameters \<and>
         publish_joint_accelerations parameters
      then Inr joint_trajectory
      else
        (case points joint_trajectory of
           [] \<Rightarrow> Inl UndefinedBehaviour
         | point # rest \<Rightarrow>
             Inr (joint_trajectory
                    \<lparr>points :=
                       point\<lparr>positions :=
                               (if publish_joint_positions parameters then positions point else []),
                             velocities :=
                               (if publish_joint_velocities parameters then velocities point else []),
                             accelerations :=
                               (if publish_joint_accelerations parameters
                                then accelerations point else [])\<rparr> # rest\<rparr>)))"

definition publish_command ::
  "ServoParameters \<Rightarrow> 's ServoCalcs \<Rightarrow> JointTrajectory \<Rightarrow> error + 's ServoCalcs \<times> Published list"
where
  "publish_command parameters s joint_trajectory0 =
     bind_result (clear_unrequested parameters joint_trajectory0) (\<lambda>joint_trajectory.
       if command_out_type parameters = ''trajectory_msgs/JointTrajectory'' then
         (let stamped = joint_trajectory\<lparr>traj_stamp := 0\<rparr>
          in Inr (s\<lparr>last_sent_command := stamped\<rparr>, [TrajectoryMsg stamped]))
       else if command_out_type parameters = ''std_msgs/Float64MultiArray'' then
         Inr (s\<lparr>last_sent_command := joint_trajectory\<rparr>,
              [MultiArrayMsg
                 (if publish_joint_positions parameters \<and> points joint_trajectory \<noteq> []
                  then map Fin (positions (hd (points joint_trajectory)))
                  else if publish_joint_velocities parameters \<and> points joint_trajectory \<noteq> []
                  then velocities (hd (points joint_trajectory))
                  else [])])
       else Inr (s, []))"

text \<open>The part of a cycle after the servo calculations have filled \<open>joint_trajectory\<close>.\<close>

definition cycle_outputs ::
  "'s Collaborators \<Rightarrow> ServoParameters \<Rightarrow> 's ServoCalcs \<Rightarrow> JointTrajectory
     \<Rightarrow> error + 's ServoCalcs \<times> Published list"
where
  "cycle_outputs c parameters s0 joint_trajectory0 =
     bind_result
       (if twist_command_is_stale s0 \<and> joint_command_is_stale s0
        then filteredHalt c parameters s0 joint_trajectory0
        else Inr (s0\<lparr>done_stopping := False\<rparr>, joint_trajectory0))
       (\<lambda>(s1, joint_trajectory).
          let s2 = s1\<lparr>ok_to_publish :=
                        (if \<not> have_nonzero_command s1 \<and> done_stopping s1 \<and>
                            num_outgoing_halt_msgs_to_publish parameters \<noteq> 0 \<and>
                            zero_velocity_count s1 > num_outgoing_halt_msgs_to_publish parameters
                         then False
                         else if twist_command_is_stale s1 \<and> joint_command_is_stale s1
                         then False
                         else True)\<rparr>;
              s3 = s2\<lparr>zero_velocity_count :=
                        (if \<not> have_nonzero_command s2 \<and> done_stopping s2
                         then (if zero_velocity_count s2 < 2147483647
                               then zero_velocity_count s2 + 1 else zero_velocity_count s2)
                         else 0)\<rparr>
          in bind_result
               (if ok_to_publish s3 \<and> \<not> paused s3
                then publish_command parameters s3 joint_trajectory
                else Inr (s3, []))
               (\<lambda>(s4, published).
                  Inr (if \<not> updated_filters s4
                       then resetLowPassFilters c (original_joint_state s4) s4 else s4,
                       published)))"

definition calculateSingleIteration ::
  "'s Collaborators \<Rightarrow> ServoParameters \<Rightarrow> 's ServoCalcs \<Rightarrow> error + 's ServoCalcs \<times> Published list"
where
  "calculateSingleIteration c parameters s0 =
     (let s = cycle_inputs c parameters s0 in
      if wait_for_servo_commands s \<or> paused s then
        Inr ((resetLowPassFilters c (original_joint_state s) s)
               \<lparr>wait_for_servo_commands :=
                  (twist_stamp (twist_stamped_cmd s) = 0 \<and> jog_stamp (joint_servo_cmd s) = 0)\<rparr>,
             [StatusMsg (status s0)])
      else if have_nonzero_twist_stamped s \<and> \<not> twist_command_is_stale s then
        bind_result (cartesianServoCalcs c parameters s (twist_stamped_cmd s) empty_trajectory)
          (\<lambda>(ok, s1, cmd, joint_trajectory, condition).
             let s2 = s1\<lparr>twist_stamped_cmd := cmd\<rparr> in
             if \<not> ok
             then Inr (resetLowPassFilters c (original_joint_state s2) s2,
                       StatusMsg (status s0) # condition)
             else bind_result (cycle_outputs c parameters s2 joint_trajectory)
                    (\<lambda>(s3, published). Inr (s3, StatusMsg (status s0) # condition @ published)))
      else if have_nonzero_joint_command s \<and> \<not> joint_command_is_stale s then
        bind_result (jointServoCalcs c parameters s (joint_servo_cmd s) empty_trajectory)
          (\<lambda>(ok, s1, joint_trajectory).
             if \<not> ok
             then Inr (resetLowPassFilters c (original_joint_state s1) s1,
                       [StatusMsg (status s0)])
             else bind_result (cycle_outputs c parameters s1 joint_trajectory)
                    (\<lambda>(s2, published). Inr (s2, StatusMsg (status s0) # published)))
      else
        bind_result
          (cycle_outputs c parameters s
             ((last_sent_command s)
                \<lparr>points := map (\<lambda>point. point\<lparr>velocities :=
                                           replicate (length (velocities point)) (Fin 0)\<rparr>)
                             (points (last_sent_command s))\<rparr>))
          (\<lambda>(s1, published). Inr (s1, StatusMsg (status s0) # published)))"

subsection \<open>Runs of callbacks and cycles\<close>

text \<open>
  The command callbacks and \<open>calculateSingleIteration\<close> run under \<open>main_loop_mutex_\<close>, one
  at a time: a run of the servo is a sequence of command receipts and loop iterations, each
  iteration with the collaborators of its cycle.
\<close>

datatype 's Event =
    TwistStampedReceived TwistStamped
  | JointJogReceived JointJog
  | Iteration "'s Collaborators"

fun servo_run :: "ServoParameters \<Rightarrow> 's Event list \<Rightarrow> 's ServoCalcs \<Rightarrow> error + 's ServoCalcs" where
  "servo_run parameters [] s = Inr s"
| "servo_run parameters (TwistStampedReceived msg # events) s =
     servo_run parameters events (twistStampedCB msg s)"
| "servo_run parameters (JointJogReceived msg # events) s =
     servo_run parameters events (jointCmdCB msg s)"
| "servo_run parameters (Iteration c # events) s =
     (case calculateSingleIteration c parameters s of
        Inl e \<Rightarrow> Inl e
      | Inr (s1, published) \<Rightarrow> servo_run parameters events s1)"

fun stamp_is_zero :: "'s Event \<Rightarrow> bool" where
  "stamp_is_zero (TwistStampedReceived msg) = (twist_stamp msg = 0)"
| "stamp_is_zero (JointJogReceived msg) = (jog_stamp msg = 0)"
| "stamp_is_zero (Iteration c) = True"

text \<open>The servo waits for its first command, and no command with a stamp other than 0 has
  arrived: the command slots hold nothing or a stamp of 0.\<close>

definition waiting :: "'s ServoCalcs \<Rightarrow> bool" where
  "waiting s =
     (wait_for_servo_commands s \<and>
      twist_stamp (twist_stamped_cmd s) = 0 \<and> jog_stamp (joint_servo_cmd s) = 0 \<and>
      (case latest_twist_stamped s of None \<Rightarrow> True | Some msg \<Rightarrow> twist_stamp msg = 0) \<and>
      (case latest_joint_cmd s of None \<Rightarrow> True | Some msg \<Rightarrow> jog_stamp msg = 0))"

subsection \<open>The halt criterion of the specification\<close>

text \<open>
  Section 4.C6 in its own words: a joint is a halt candidate when it has position bounds,
  its position in the joint state (found by its name) is within \<open>joint_limit_margin\<close> of
  one of them, and its velocity points further past that bound.
\<close>

definition halt_candidate :: "ServoParameters \<Rightarrow> JointState \<Rightarrow> JointModel \<Rightarrow> bool" where
  "halt_candidate parameters joint_state joint =
     (case getVariableBoundsMsg joint of
        [] \<Rightarrow> False
      | l # _ \<Rightarrow>
          (let i = find_distance (getName joint) (name joint_state);
               angle = position joint_state ! i;
               v = velocity joint_state ! i
           in (less_than v 0 \<and> angle < min_position l + joint_limit_margin parameters) \<or>
              (greater_than v 0 \<and> angle > max_position l - joint_limit_margin parameters)))"

subsection \<open>A two-joint servo\<close>

text \<open>
  A concrete servo on which the theorems below are instantiated: two bounded joints, a
  smoother that averages its input with its last output, 10 ms cycles, and the state that
  the constructor and \<open>start()\<close> leave.
\<close>

definition example_parameters :: ServoParameters where
  "example_parameters =
     \<lparr>publish_period = 1 / 100, command_in_type = ''unitless'',
      lower_singularity_threshold = 17, hard_stop_singularity_threshold = 30,
      joint_limit_margin = 1 / 10,
      halt_all_joints_in_joint_mode = False, halt_all_joints_in_cartesian_mode = False,
      publish_joint_positions = True, publish_joint_velocities = True,
      publish_joint_accelerations = False, use_gazebo = False,
      incoming_command_timeout = 1 / 10, num_outgoing_halt_msgs_to_publish = 4,
      linear_scale = 2 / 5, rotational_scale = 4 / 5, joint_scale = 1 / 2,
      planning_frame = ''base_link'', ee_frame_name = ''tool0'',
      command_out_type = ''trajectory_msgs/JointTrajectory''\<rparr>"

definition example_joint_models :: "JointModel list" where
  "example_joint_models =
     [\<lparr>getName = ''joint_1'',
       getVariableBoundsMsg = [\<lparr>min_position = - 2, max_position = 2\<rparr>]\<rparr>,
      \<lparr>getName = ''joint_2'',
       getVariableBoundsMsg = [\<lparr>min_position = - 3, max_position = 3\<rparr>]\<rparr>]"

definition example_collaborators :: "real list Collaborators" where
  "example_collaborators =
     \<lparr>doSmoothing =
        (\<lambda>last xs. (map2 (\<lambda>a b. (a + b) / 2) last xs, map2 (\<lambda>a b. (a + b) / 2) last xs)),
      smoother_reset = (\<lambda>last xs. xs),
      enforceVelocityLimits = (\<lambda>delta. delta),
      now = 5000000000,
      getActiveJointModels = example_joint_models,
      copyJointGroupPositions = [48 / 25, 0],
      copyJointGroupVelocities = [Fin 0, Fin 0],
      frame_rotation = (\<lambda>frame v. v),
      getJacobian = [[1, 0], [0, 1], [0, 0], [0, 0], [0, 0], [1, 1]],
      jacobi_svd_step =
        (\<lambda>jacobian delta_x.
           \<lparr>pseudo_inverse_delta_x = [0, 0], u_last_column = map (\<lambda>_. 0) delta_x,
            ini_condition_number = 1, new_condition_number = 1\<rparr>)\<rparr>"

definition example_joint_state :: JointState where
  "example_joint_state =
     \<lparr>name = [''joint_1'', ''joint_2''], position = [48 / 25, 0],
      velocity = [Fin 0, Fin 0]\<rparr>"

definition example_state :: "real list ServoCalcs" where
  "example_state =
     \<lparr>status = NO_WARNING, done_stopping = False, paused = False,
      wait_for_servo_commands = True, updated_filters = False,
      have_nonzero_command = False, have_nonzero_twist_stamped = False,
      have_nonzero_joint_command = False, twist_command_is_stale = False,
      joint_command_is_stale = False, ok_to_publish = False, zero_velocity_count = 0,
      num_joints = 2,
      internal_joint_state = example_joint_state,
      original_joint_state = example_joint_state,
      joint_state_name_map = [''joint_1'' \<mapsto> 0, ''joint_2'' \<mapsto> 1],
      twist_stamped_cmd =
        \<lparr>twist_stamp = 0, twist_frame_id = [], linear_x = Val 0, linear_y = Val 0,
         linear_z = Val 0, angular_x = Val 0, angular_y = Val 0, angular_z = Val 0\<rparr>,
      joint_servo_cmd = \<lparr>jog_stamp = 0, jog_joint_names = [], jog_velocities = []\<rparr>,
      latest_twist_stamped = None, latest_joint_cmd = None,
      latest_twist_command_stamp = 0, latest_joint_command_stamp = 0,
      latest_twist_cmd_is_nonzero = False, latest_joint_cmd_is_nonzero = False,
      new_input_cmd = False, delta_theta = [],
      last_sent_command =
        \<lparr>traj_stamp = 5000000000, traj_frame_id = ''base_link'',
         joint_names = [''joint_1'', ''joint_2''],
         points = [\<lparr>positions = [48 / 25, 0], velocities = [Fin 0, Fin 0],
                    accelerations = [],
                    time_from_start = 10000000\<rparr>]\<rparr>,
      collision_velocity_scale = 1,
      drift_dimensions = [False, False, False, False, False, False],
      control_dimensions = [True, True, True, True, True, True],
      gazebo_redundant_message_count = 30,
      robot_link_command_frame = ''base_link'',
      tf_moveit_to_robot_cmd_frame = (\<lambda>v. v), tf_moveit_to_ee_frame = (\<lambda>v. v),
      smoother = [49 / 25, 1 / 5]\<rparr>"

section \<open>trajectory\_processing: ruckig\_traj\_smoothing.cpp\<close>

definition DEFAULT_MAX_VELOCITY :: real where "DEFAULT_MAX_VELOCITY = 5"
definition DEFAULT_MAX_ACCELERATION :: real where "DEFAULT_MAX_ACCELERATION = 10"
definition DEFAULT_MAX_JERK :: real where "DEFAULT_MAX_JERK = 20"
definition IDENTICAL_POSITION_EPSILON :: real where "IDENTICAL_POSITION_EPSILON = 0.001"
definition MINIMUM_VELOCITY_SEARCH_MAGNITUDE :: real where
  "MINIMUM_VELOCITY_SEARCH_MAGNITUDE = 0.01"
definition DEFAULT_RUCKIG_TIMESTEP :: real where "DEFAULT_RUCKIG_TIMESTEP = 0.001"

text \<open>The fields of \<open>ruckig::InputParameter\<close> and \<open>ruckig::OutputParameter\<close> in use.\<close>

record InputParameter =
  current_position :: "real list"
  current_velocity :: "real list"
  current_acceleration :: "real list"
  target_position :: "real list"
  target_velocity :: "real list"
  target_acceleration :: "real list"
  max_velocity :: "real list"
  max_acceleration :: "real list"
  max_jerk :: "real list"

record OutputParameter =
  new_position :: "real list"
  new_velocity :: "real list"
  new_acceleration :: "real list"

subsection \<open>Robot states, trajectories and the Ruckig library\<close>

text \<open>
  A \<open>moveit::core::RobotState\<close> holds the position, velocity and acceleration of every
  variable of the robot; a group addresses its own variables through its index list.
  \<open>getVariablePosition(index)\<close> reads the array unchecked.
\<close>

record RobotState =
  variable_position :: "real list"
  variable_velocity :: "real list"
  variable_acceleration :: "real list"

definition getVariable :: "real list \<Rightarrow> nat \<Rightarrow> error + real" where
  "getVariable values index =
     (if index < length values then Inr (values ! index) else Inl UndefinedBehaviour)"

definition setVariable :: "real list \<Rightarrow> nat \<Rightarrow> real \<Rightarrow> error + real list" where
  "setVariable values index v =
     (if index < length values then Inr (values[index := v]) else Inl UndefinedBehaviour)"

record VariableBounds =
  velocity_bounded :: bool
  bound_max_velocity :: real
  acceleration_bounded :: bool
  bound_max_acceleration :: real

text \<open>What \<open>applySmoothing\<close> reads of the \<open>JointModelGroup\<close> and, through it, of the
  robot model.\<close>

record JointModelGroup =
  getVariableCount :: nat
  getVariableIndexList :: "nat list"
  getVariableNames :: "string list"
  getVariableBounds :: "string \<Rightarrow> VariableBounds"

record RobotTrajectory =
  getGroup :: "JointModelGroup option"
  waypoints :: "RobotState list"
  duration_from_previous :: "real list"

text \<open>
  Modelled from the spec: \<open>RobotTrajectory\<close> belongs to the robot\_trajectory library of the
  repository, which is not among the sources. By section 3 a trajectory is "an ordered
  sequence of waypoints", each with a "duration-from-previous": \<open>addSuffixWayPoint\<close> and
  \<open>addPrefixWayPoint\<close> add a waypoint with its duration at the end and at the front,
  \<open>clear\<close> empties the sequence, \<open>getWayPointDurationFromPrevious\<close> reads a duration.
\<close>

definition getWayPointCount :: "RobotTrajectory \<Rightarrow> nat" where
  "getWayPointCount trajectory = length (waypoints trajectory)"

definition addSuffixWayPoint :: "RobotState \<Rightarrow> real \<Rightarrow> RobotTrajectory \<Rightarrow> RobotTrajectory" where
  "addSuffixWayPoint state dt trajectory =
     trajectory\<lparr>waypoints := waypoints trajectory @ [state],
                duration_from_previous := duration_from_previous trajectory @ [dt]\<rparr>"

definition addPrefixWayPoint :: "RobotState \<Rightarrow> real \<Rightarrow> RobotTrajectory \<Rightarrow> RobotTrajectory" where
  "addPrefixWayPoint state dt trajectory =
     trajectory\<lparr>waypoints := state # waypoints trajectory,
                duration_from_previous := dt # duration_from_previous trajectory\<rparr>"

definition clear :: "RobotTrajectory \<Rightarrow> RobotTrajectory" where
  "clear trajectory = trajectory\<lparr>waypoints := [], duration_from_previous := []\<rparr>"

definition getWayPointDurationFromPrevious :: "RobotTrajectory \<Rightarrow> nat \<Rightarrow> real" where
  "getWayPointDurationFromPrevious trajectory index =
     (if index < length (duration_from_previous trajectory)
      then duration_from_previous trajectory ! index else 0)"

datatype Result = Working | Finished | Error int

text \<open>
  The collaborators of \<open>applySmoothing\<close>, outside the smoothing code: \<open>unwind\<close>,
  \<open>getAverageSegmentDuration\<close> and the group-space \<open>distance\<close> of the trajectory and
  robot-state libraries, and \<open>update\<close> of the Ruckig object (with its own state \<open>'r\<close>),
  which returns its result code and writes the output parameter.
\<close>

record 'r SmoothingCollaborators =
  unwind :: "RobotTrajectory \<Rightarrow> RobotTrajectory"
  getAverageSegmentDuration :: "RobotTrajectory \<Rightarrow> real"
  distance :: "RobotState \<Rightarrow> RobotState \<Rightarrow> real"
  update :: "'r \<Rightarrow> InputParameter \<Rightarrow> OutputParameter \<Rightarrow> Result \<times> OutputParameter \<times> 'r"

definition DBL_MAX :: real where
  "DBL_MAX = (2 - 1 / 2 ^ 52) * 2 ^ 1023"

subsection \<open>checkForIdenticalWaypoints and the removal loop of applySmoothing\<close>

definition checkForIdenticalWaypoints ::
  "'r SmoothingCollaborators \<Rightarrow> RobotState \<Rightarrow> RobotState \<Rightarrow> bool"
where
  "checkForIdenticalWaypoints tc prev_waypoint target_waypoint =
     (let magnitude_position_difference = distance tc prev_waypoint target_waypoint
      in magnitude_position_difference \<le> IDENTICAL_POSITION_EPSILON)"

text \<open>
  The loop under the comment "Remove repeated waypoints with no change in position", from
  \<open>waypoint_idx\<close> on. \<open>num_waypoints\<close> is the count taken before the loop, so
  \<open>waypoint_idx + 1\<close> stays inside the sequence, which the loop only extends.
\<close>

function remove_repeated_waypoints ::
  "'r SmoothingCollaborators \<Rightarrow> nat \<Rightarrow> nat \<Rightarrow> RobotTrajectory \<Rightarrow> RobotTrajectory"
where
  "remove_repeated_waypoints tc num_waypoints waypoint_idx trajectory =
     (if waypoint_idx < num_waypoints - 1 then
        remove_repeated_waypoints tc num_waypoints (waypoint_idx + 1)
          (if checkForIdenticalWaypoints tc (waypoints trajectory ! waypoint_idx)
                (waypoints trajectory ! (waypoint_idx + 1))
           then trajectory
           else addSuffixWayPoint (waypoints trajectory ! waypoint_idx)
                  (getWayPointDurationFromPrevious trajectory waypoint_idx) trajectory)
      else trajectory)"
  by pat_completeness auto
termination
  by (relation "measure (\<lambda>(_, num_waypoints, waypoint_idx, _). num_waypoints - waypoint_idx)")
     auto

declare remove_repeated_waypoints.simps [simp del]

subsection \<open>The Ruckig state: initializeRuckigState, getNextRuckigInput and the limits\<close>

text \<open>The values of the group's variables in a robot state, \<open>values.at(i) =
  state.getVariable...(idx.at(i))\<close> for \<open>i < num_dof\<close>, from index \<open>i\<close> on.\<close>

function group_values :: "nat list \<Rightarrow> real list \<Rightarrow> nat \<Rightarrow> nat \<Rightarrow> real list \<Rightarrow> error + real list" where
  "group_values idx values num_dof i acc =
     (if i < num_dof then
        bind_result (vector_at idx i) (\<lambda>index.
        bind_result (getVariable values index) (\<lambda>v.
          if i < length acc then group_values idx values num_dof (i + 1) (acc[i := v])
          else Inl OutOfRange))
      else Inr acc)"
  by pat_completeness auto
termination
  by (relation "measure (\<lambda>(_, _, num_dof, i, _). num_dof - i)") auto

declare group_values.simps [simp del]

text \<open>\<open>std::copy_n(source.begin(), n, target.begin())\<close>; writing past the end of the target
  is undefined behaviour.\<close>

definition copy_n :: "real list \<Rightarrow> nat \<Rightarrow> real list \<Rightarrow> error + real list" where
  "copy_n source n target =
     (if n \<le> length source \<and> n \<le> length target
      then Inr (take n source @ drop n target) else Inl UndefinedBehaviour)"

definition initializeRuckigState ::
  "InputParameter \<Rightarrow> OutputParameter \<Rightarrow> RobotState \<Rightarrow> nat \<Rightarrow> nat list
     \<Rightarrow> error + InputParameter \<times> OutputParameter"
where
  "initializeRuckigState ruckig_input ruckig_output first_waypoint num_dof idx =
     bind_result (group_values idx (variable_position first_waypoint) num_dof 0
                    (replicate num_dof 0)) (\<lambda>current_positions_vector.
     bind_result (group_values idx (variable_velocity first_waypoint) num_dof 0
                    (replicate num_dof 0)) (\<lambda>current_velocities_vector.
     bind_result (group_values idx (variable_acceleration first_waypoint) num_dof 0
                    (replicate num_dof 0)) (\<lambda>current_accelerations_vector.
     bind_result (copy_n current_positions_vector num_dof (current_position ruckig_input))
       (\<lambda>p.
     bind_result (copy_n current_velocities_vector num_dof (current_velocity ruckig_input))
       (\<lambda>v.
     bind_result
       (copy_n current_accelerations_vector num_dof (current_acceleration ruckig_input))
       (\<lambda>a.
        Inr (ruckig_input\<lparr>current_position := p, current_velocity := v,
                          current_acceleration := a\<rparr>,
             ruckig_output\<lparr>new_position := p, new_velocity := v,
                           new_acceleration := a\<rparr>)))))))"

text \<open>\<open>target.at(joint) = source_value\<close> for the joints from \<open>joint\<close> on, where the source
  values have been read already; the write is checked.\<close>

definition assign_at :: "real list \<Rightarrow> nat \<Rightarrow> real \<Rightarrow> error + real list" where
  "assign_at xs i v = (if i < length xs then Inr (xs[i := v]) else Inl OutOfRange)"

function getNextRuckigInput_from ::
  "nat \<Rightarrow> OutputParameter \<Rightarrow> RobotState \<Rightarrow> nat \<Rightarrow> nat list \<Rightarrow> InputParameter
     \<Rightarrow> error + InputParameter"
where
  "getNextRuckigInput_from joint ruckig_output target_waypoint num_dof idx ruckig_input =
     (if joint < num_dof then
        bind_result (vector_at (new_position ruckig_output) joint) (\<lambda>np.
        bind_result (assign_at (current_position ruckig_input) joint np) (\<lambda>cp.
        bind_result (vector_at (new_velocity ruckig_output) joint) (\<lambda>nv.
        bind_result (assign_at (current_velocity ruckig_input) joint nv) (\<lambda>cv.
        bind_result (vector_at (new_acceleration ruckig_output) joint) (\<lambda>na.
        bind_result (assign_at (current_acceleration ruckig_input) joint na) (\<lambda>ca.
        bind_result (vector_at idx joint) (\<lambda>index.
        bind_result (getVariable (variable_position target_waypoint) index) (\<lambda>wp.
        bind_result (assign_at (target_position ruckig_input) joint wp) (\<lambda>tp.
        bind_result (getVariable (variable_velocity target_waypoint) index) (\<lambda>wv.
        bind_result (assign_at (target_velocity ruckig_input) joint wv) (\<lambda>tv.
        bind_result (getVariable (variable_acceleration target_waypoint) index) (\<lambda>wa.
        bind_result (assign_at (target_acceleration ruckig_input) joint wa) (\<lambda>ta.
          getNextRuckigInput_from (joint + 1) ruckig_output target_waypoint num_dof idx
            (ruckig_input\<lparr>current_position := cp, current_velocity := cv,
                           current_acceleration := ca, target_position := tp,
                           target_velocity := tv, target_acceleration := ta\<rparr>))))))))))))))
      else Inr ruckig_input)"
  by pat_completeness auto
termination
  by (relation "measure (\<lambda>(joint, _, _, num_dof, _, _). num_dof - joint)") auto

declare getNextRuckigInput_from.simps [simp del]

definition getNextRuckigInput ::
  "OutputParameter \<Rightarrow> RobotState \<Rightarrow> nat \<Rightarrow> nat list \<Rightarrow> InputParameter \<Rightarrow> error + InputParameter"
where
  "getNextRuckigInput ruckig_output target_waypoint num_dof idx ruckig_input =
     getNextRuckigInput_from 0 ruckig_output target_waypoint num_dof idx ruckig_input"

text \<open>The loop "Kinematic limits (vel/accel/jerk)" of \<open>applySmoothing\<close>, from \<open>i\<close> on.\<close>

function kinematic_limits ::
  "JointModelGroup \<Rightarrow> real \<Rightarrow> real \<Rightarrow> nat \<Rightarrow> nat \<Rightarrow> InputParameter \<Rightarrow> error + InputParameter"
where
  "kinematic_limits grp max_velocity_scaling_factor max_acceleration_scaling_factor num_dof i
       ruckig_input =
     (if i < num_dof then
        bind_result (assign_at (max_jerk ruckig_input) i DEFAULT_MAX_JERK) (\<lambda>mj.
        bind_result (vector_at (getVariableNames grp) i) (\<lambda>var.
          let bounds = getVariableBounds grp var in
        bind_result
          (assign_at (max_velocity ruckig_input) i
             (if velocity_bounded bounds
              then max_velocity_scaling_factor * bound_max_velocity bounds
              else max_velocity_scaling_factor * DEFAULT_MAX_VELOCITY)) (\<lambda>mv.
        bind_result
          (assign_at (max_acceleration ruckig_input) i
             (if acceleration_bounded bounds
              then max_acceleration_scaling_factor * bound_max_acceleration bounds
              else max_acceleration_scaling_factor * DEFAULT_MAX_ACCELERATION)) (\<lambda>ma.
          kinematic_limits grp max_velocity_scaling_factor max_acceleration_scaling_factor
            num_dof (i + 1)
            (ruckig_input\<lparr>max_jerk := mj, max_velocity := mv, max_acceleration := ma\<rparr>)))))
      else Inr ruckig_input)"
  by pat_completeness auto
termination
  by (relation "measure (\<lambda>(_, _, _, num_dof, i, _). num_dof - i)") auto

declare kinematic_limits.simps [simp del]

subsection \<open>getTargetVelocityMagnitude\<close>

function getTargetVelocityMagnitude_from ::
  "nat \<Rightarrow> InputParameter \<Rightarrow> nat \<Rightarrow> real \<Rightarrow> error + real"
where
  "getTargetVelocityMagnitude_from joint ruckig_input num_dof vel_magnitude =
     (if joint < num_dof then
        bind_result (vector_at (target_velocity ruckig_input) joint) (\<lambda>tv.
          getTargetVelocityMagnitude_from (joint + 1) ruckig_input num_dof
            (vel_magnitude + tv * tv))
      else Inr (sqrt vel_magnitude))"
  by pat_completeness auto
termination
  by (relation "measure (\<lambda>(joint, _, num_dof, _). num_dof - joint)") auto

declare getTargetVelocityMagnitude_from.simps [simp del]

definition getTargetVelocityMagnitude :: "InputParameter \<Rightarrow> nat \<Rightarrow> error + real" where
  "getTargetVelocityMagnitude ruckig_input num_dof =
     getTargetVelocityMagnitude_from 0 ruckig_input num_dof 0"

subsection \<open>checkForLaggingMotion\<close>

text \<open>
  The loop over the joints, started at \<open>joint\<close>. It returns at the first joint whose ratio
  is below one, so the joints after it are not read.
\<close>

function checkForLaggingMotion_from ::
  "nat \<Rightarrow> nat \<Rightarrow> InputParameter \<Rightarrow> OutputParameter \<Rightarrow> error + bool"
where
  "checkForLaggingMotion_from joint num_dof ruckig_input ruckig_output =
     (if joint < num_dof then
        (case vector_at (new_velocity ruckig_output) joint of
           Inl e \<Rightarrow> Inl e
         | Inr nv \<Rightarrow>
            (case vector_at (target_velocity ruckig_input) joint of
               Inl e \<Rightarrow> Inl e
             | Inr tv \<Rightarrow>
                if less_than (quotient nv tv) 1 then Inr True
                else checkForLaggingMotion_from (joint + 1) num_dof ruckig_input
                       ruckig_output))
      else Inr False)"
  by pat_completeness auto
termination
  by (relation "measure (\<lambda>(joint, num_dof, _, _). num_dof - joint)") auto

declare checkForLaggingMotion_from.simps [simp del]

definition checkForLaggingMotion ::
  "nat \<Rightarrow> InputParameter \<Rightarrow> OutputParameter \<Rightarrow> error + bool"
where
  "checkForLaggingMotion num_dof ruckig_input ruckig_output =
     checkForLaggingMotion_from 0 num_dof ruckig_input ruckig_output"

subsection \<open>applySmoothing\<close>

text \<open>The loop "decrease target velocity" of the while body, from \<open>joint\<close> on.\<close>

function decrease_target_velocity ::
  "nat \<Rightarrow> nat \<Rightarrow> OutputParameter \<Rightarrow> InputParameter \<Rightarrow> error + InputParameter"
where
  "decrease_target_velocity joint num_dof ruckig_output ruckig_input =
     (if joint < num_dof then
        bind_result (vector_at (target_velocity ruckig_input) joint) (\<lambda>tv.
        bind_result (vector_at (new_velocity ruckig_output) joint) (\<lambda>nv.
        bind_result
          (assign_at (target_acceleration ruckig_input) joint
             ((tv * 0.9 - nv) / DEFAULT_RUCKIG_TIMESTEP)) (\<lambda>ta.
          decrease_target_velocity (joint + 1) num_dof ruckig_output
            (ruckig_input\<lparr>target_velocity := (target_velocity ruckig_input)[joint := tv * 0.9],
                           target_acceleration := ta\<rparr>))))
      else Inr ruckig_input)"
  by pat_completeness auto
termination
  by (relation "measure (\<lambda>(joint, num_dof, _, _). num_dof - joint)") auto

declare decrease_target_velocity.simps [simp del]

text \<open>The loop that fills \<open>new_waypoint\<close> from the Ruckig output, from \<open>joint\<close> on.\<close>

function set_new_waypoint ::
  "nat \<Rightarrow> nat \<Rightarrow> nat list \<Rightarrow> OutputParameter \<Rightarrow> RobotState \<Rightarrow> error + RobotState"
where
  "set_new_waypoint joint num_dof idx ruckig_output new_waypoint =
     (if joint < num_dof then
        bind_result (vector_at idx joint) (\<lambda>index.
        bind_result (vector_at (new_position ruckig_output) joint) (\<lambda>np.
        bind_result (setVariable (variable_position new_waypoint) index np) (\<lambda>p.
        bind_result (vector_at (new_velocity ruckig_output) joint) (\<lambda>nv.
        bind_result (setVariable (variable_velocity new_waypoint) index nv) (\<lambda>v.
        bind_result (vector_at (new_acceleration ruckig_output) joint) (\<lambda>na.
        bind_result (setVariable (variable_acceleration new_waypoint) index na) (\<lambda>a.
          set_new_waypoint (joint + 1) num_dof idx ruckig_output
            (new_waypoint\<lparr>variable_position := p, variable_velocity := v,
                           variable_acceleration := a\<rparr>))))))))
      else Inr new_waypoint)"
  by pat_completeness auto
termination
  by (relation "measure (\<lambda>(joint, num_dof, _, _, _). num_dof - joint)") auto

declare set_new_waypoint.simps [simp del]

text \<open>The variables that the while loop of \<open>applySmoothing\<close> reads and writes.\<close>

record 'r SmoothingState =
  ruckig :: 'r
  ruckig_in :: InputParameter
  ruckig_out :: OutputParameter
  output_trajectory :: RobotTrajectory
  velocity_magnitude :: real
  backward_motion_detected :: bool
  ruckig_result :: Result

text \<open>One pass through the body of the while loop. \<open>Inr None\<close> is the \<open>return false\<close> under
  "Could not prevent backward motion"; otherwise the state at the end of the body.\<close>

definition while_body ::
  "'r SmoothingCollaborators \<Rightarrow> nat \<Rightarrow> nat list \<Rightarrow> RobotState \<Rightarrow> 'r SmoothingState
     \<Rightarrow> error + 'r SmoothingState option"
where
  "while_body tc num_dof idx target_waypoint st =
     (let updated = update tc (ruckig st) (ruckig_in st) (ruckig_out st);
          res = fst updated;
          out = fst (snd updated)
      in bind_result (checkForLaggingMotion num_dof (ruckig_in st) out) (\<lambda>backward.
         bind_result
           (if backward then
              bind_result (decrease_target_velocity 0 num_dof out (ruckig_in st)) (\<lambda>decreased.
              bind_result (getTargetVelocityMagnitude decreased num_dof) (\<lambda>magnitude.
                Inr (decreased, magnitude)))
            else Inr (ruckig_in st, velocity_magnitude st))
           (\<lambda>(input1, magnitude).
              if magnitude < MINIMUM_VELOCITY_SEARCH_MAGNITUDE then Inr None
              else
                bind_result
                  (if \<not> backward \<and> (res = Working \<or> res = Finished) then
                     bind_result (set_new_waypoint 0 num_dof idx out target_waypoint)
                       (\<lambda>new_waypoint.
                          Inr (addSuffixWayPoint new_waypoint DEFAULT_RUCKIG_TIMESTEP
                                 (output_trajectory st)))
                   else Inr (output_trajectory st))
                  (\<lambda>output1.
                bind_result (getNextRuckigInput out target_waypoint num_dof idx input1)
                  (\<lambda>input2.
                     Inr (Some (st\<lparr>ruckig := snd (snd updated), ruckig_in := input2,
                                   ruckig_out := out, output_trajectory := output1,
                                   velocity_magnitude := magnitude,
                                   backward_motion_detected := backward,
                                   ruckig_result := res\<rparr>)))))))"

text \<open>The while loop. It need not end: not returning is the value \<open>None\<close>.\<close>

partial_function (option) ruckig_while ::
  "'r SmoothingCollaborators \<Rightarrow> nat \<Rightarrow> nat list \<Rightarrow> RobotState \<Rightarrow> 'r SmoothingState
     \<Rightarrow> (error + 'r SmoothingState option) option"
where
  "ruckig_while tc num_dof idx target_waypoint st =
     (if backward_motion_detected st \<or> ruckig_result st \<noteq> Finished then
        (case while_body tc num_dof idx target_waypoint st of
           Inl e \<Rightarrow> Some (Inl e)
         | Inr None \<Rightarrow> Some (Inr None)
         | Inr (Some st1) \<Rightarrow> ruckig_while tc num_dof idx target_waypoint st1)
      else Some (Inr (Some st)))"

text \<open>The for loop over the target waypoints, from \<open>waypoint_idx\<close> on.\<close>

function smooth_waypoints ::
  "'r SmoothingCollaborators \<Rightarrow> nat \<Rightarrow> nat list \<Rightarrow> RobotTrajectory \<Rightarrow> nat \<Rightarrow> nat
     \<Rightarrow> 'r SmoothingState \<Rightarrow> (error + 'r SmoothingState option) option"
where
  "smooth_waypoints tc num_dof idx trajectory num_waypoints waypoint_idx st =
     (if waypoint_idx < num_waypoints - 1 then
        (case ruckig_while tc num_dof idx (waypoints trajectory ! (waypoint_idx + 1))
                (st\<lparr>velocity_magnitude := DBL_MAX, backward_motion_detected := True,
                    ruckig_result := Working\<rparr>) of
           None \<Rightarrow> None
         | Some (Inl e) \<Rightarrow> Some (Inl e)
         | Some (Inr None) \<Rightarrow> Some (Inr None)
         | Some (Inr (Some st1)) \<Rightarrow>
             smooth_waypoints tc num_dof idx trajectory num_waypoints (waypoint_idx + 1) st1)
      else Some (Inr (Some st)))"
  by pat_completeness auto
termination
  by (relation "measure (\<lambda>(_, _, _, _, num_waypoints, waypoint_idx, _).
                           num_waypoints - waypoint_idx)") auto

declare smooth_waypoints.simps [simp del]

text \<open>
  The sanitising part of \<open>applySmoothing\<close>, up to the test of the average segment duration:
  \<open>Inr None\<close> is a \<open>return false\<close>, otherwise the trajectory that the rest of the function
  smooths. The argument is passed by reference, so the caller's trajectory is this one too.
\<close>

definition sanitize ::
  "'r SmoothingCollaborators \<Rightarrow> RobotTrajectory \<Rightarrow> (JointModelGroup \<times> RobotTrajectory) option"
where
  "sanitize tc trajectory0 =
     (case getGroup trajectory0 of
        None \<Rightarrow> None
      | Some grp \<Rightarrow>
          (let num_waypoints = getWayPointCount trajectory0 in
           if num_waypoints < 2 then None
           else
             (let trajectory = remove_repeated_waypoints tc num_waypoints 0 (unwind tc trajectory0)
              in if getWayPointCount trajectory < 2 then None
                 else if getAverageSegmentDuration tc trajectory < DEFAULT_RUCKIG_TIMESTEP
                 then None
                 else Some (grp, trajectory))))"

text \<open>\<open>ruckig::InputParameter<0>{num_dof}\<close> and \<open>ruckig::OutputParameter<0>{num_dof}\<close>: vectors
  of \<open>num_dof\<close> entries. The limits are all written before the first use.\<close>

definition new_InputParameter :: "nat \<Rightarrow> InputParameter" where
  "new_InputParameter num_dof =
     \<lparr>current_position = replicate num_dof 0, current_velocity = replicate num_dof 0,
      current_acceleration = replicate num_dof 0, target_position = replicate num_dof 0,
      target_velocity = replicate num_dof 0, target_acceleration = replicate num_dof 0,
      max_velocity = replicate num_dof 0, max_acceleration = replicate num_dof 0,
      max_jerk = replicate num_dof 0\<rparr>"

definition new_OutputParameter :: "nat \<Rightarrow> OutputParameter" where
  "new_OutputParameter num_dof =
     \<lparr>new_position = replicate num_dof 0, new_velocity = replicate num_dof 0,
      new_acceleration = replicate num_dof 0\<rparr>"

text \<open>\<open>applySmoothing\<close> returns its \<open>bool\<close> and the trajectory, when it returns.\<close>

definition applySmoothing ::
  "'r SmoothingCollaborators \<Rightarrow> 'r \<Rightarrow> RobotTrajectory \<Rightarrow> real \<Rightarrow> real
     \<Rightarrow> (error + bool \<times> RobotTrajectory) option"
where
  "applySmoothing tc ruckig0 trajectory0 max_velocity_scaling_factor
       max_acceleration_scaling_factor =
     (case sanitize tc trajectory0 of
        None \<Rightarrow>
          Some (Inr (False,
             (if getGroup trajectory0 = None \<or> getWayPointCount trajectory0 < 2 then trajectory0
              else remove_repeated_waypoints tc (getWayPointCount trajectory0) 0
                     (unwind tc trajectory0))))
      | Some (grp, trajectory) \<Rightarrow>
          (let num_dof = getVariableCount grp;
               idx = getVariableIndexList grp;
               output0 = addPrefixWayPoint (hd (waypoints trajectory)) 0 (clear trajectory)
           in case bind_result
                     (initializeRuckigState (new_InputParameter num_dof)
                        (new_OutputParameter num_dof) (hd (waypoints trajectory)) num_dof idx)
                     (\<lambda>(input0, out0).
                        bind_result
                          (kinematic_limits grp max_velocity_scaling_factor
                             max_acceleration_scaling_factor num_dof 0 input0)
                          (\<lambda>input1. Inr (input1, out0))) of
                Inl e \<Rightarrow> Some (Inl e)
              | Inr (input1, out0) \<Rightarrow>
                  (case smooth_waypoints tc num_dof idx trajectory (getWayPointCount trajectory) 0
                          \<lparr>ruckig = ruckig0, ruckig_in = input1, ruckig_out = out0,
                           output_trajectory = output0, velocity_magnitude = DBL_MAX,
                           backward_motion_detected = True, ruckig_result = Working\<rparr> of
                     None \<Rightarrow> None
                   | Some (Inl e) \<Rightarrow> Some (Inl e)
                   | Some (Inr None) \<Rightarrow> Some (Inr (False, trajectory))
                   | Some (Inr (Some st)) \<Rightarrow> Some (Inr (True, output_trajectory st)))))"

subsection \<open>A one-joint trajectory\<close>

text \<open>
  A concrete smoothing problem: a group of one unbounded variable, two waypoints from rest
  at 0 to position 1 with velocity 1, and a Ruckig step that reaches its target at once.
\<close>

definition example_group :: JointModelGroup where
  "example_group =
     \<lparr>getVariableCount = 1, getVariableIndexList = [0], getVariableNames = [''joint_1''],
      getVariableBounds =
        (\<lambda>_. \<lparr>velocity_bounded = False, bound_max_velocity = 0,
               acceleration_bounded = False, bound_max_acceleration = 0\<rparr>)\<rparr>"

definition example_smoothing :: "unit SmoothingCollaborators" where
  "example_smoothing =
     \<lparr>unwind = (\<lambda>trajectory. trajectory),
      getAverageSegmentDuration = (\<lambda>trajectory. 1),
      distance = (\<lambda>a b. \<bar>variable_position a ! 0 - variable_position b ! 0\<bar>),
      update =
        (\<lambda>r inp out.
           (Finished,
            \<lparr>new_position = target_position inp, new_velocity = target_velocity inp,
             new_acceleration = target_acceleration inp\<rparr>, r))\<rparr>"

definition example_trajectory :: RobotTrajectory where
  "example_trajectory =
     \<lparr>getGroup = Some example_group,
      waypoints =
        [\<lparr>variable_position = [0], variable_velocity = [0], variable_acceleration = [0]\<rparr>,
         \<lparr>variable_position = [1], variable_velocity = [1], variable_acceleration = [0]\<rparr>],
      duration_from_previous = [0, 1]\<rparr>"

section \<open>The singularity scale at the thresholds\<close>

lemma velocity_scale_moving_away:
  "dot (if ini \<ge> new then map uminus u else u) v \<le> 0 \<Longrightarrow>
   velocityScalingFactorForSingularity p v u ini new st = (1, st)"
  by (simp add: velocityScalingFactorForSingularity_def Let_def)

lemma velocity_scale_below_lower:
  "ini \<le> lower_singularity_threshold p \<Longrightarrow> ini \<le> hard_stop_singularity_threshold p \<Longrightarrow>
   velocityScalingFactorForSingularity p v u ini new st = (1, st)"
  by (simp add: velocityScalingFactorForSingularity_def Let_def)

lemma velocity_scale_ramp:
  "0 < dot (if ini \<ge> new then map uminus u else u) v \<Longrightarrow>
   lower_singularity_threshold p < ini \<Longrightarrow> ini < hard_stop_singularity_threshold p \<Longrightarrow>
   velocityScalingFactorForSingularity p v u ini new st =
     (1 - (ini - lower_singularity_threshold p) /
            (hard_stop_singularity_threshold p - lower_singularity_threshold p),
      DECELERATE_FOR_SINGULARITY)"
  by (simp add: velocityScalingFactorForSingularity_def Let_def)

lemma velocity_scale_above_hard_stop:
  "0 < dot (if ini \<ge> new then map uminus u else u) v \<Longrightarrow>
   hard_stop_singularity_threshold p < ini \<Longrightarrow>
   velocityScalingFactorForSingularity p v u ini new st = (0, HALT_FOR_SINGULARITY)"
  by (simp add: velocityScalingFactorForSingularity_def Let_def)

lemma velocity_scale_monotone:
  assumes "0 < dot (if k1 \<ge> new1 then map uminus u1 else u1) v1"
    and "0 < dot (if k2 \<ge> new2 then map uminus u2 else u2) v2"
    and "lower_singularity_threshold p < k1" "k1 \<le> k2" "k2 < hard_stop_singularity_threshold p"
  shows "fst (velocityScalingFactorForSingularity p v2 u2 k2 new2 st2) \<le>
         fst (velocityScalingFactorForSingularity p v1 u1 k1 new1 st1)"
proof -
  have "0 < hard_stop_singularity_threshold p - lower_singularity_threshold p"
    using assms by simp
  then have "(k1 - lower_singularity_threshold p) /
               (hard_stop_singularity_threshold p - lower_singularity_threshold p) \<le>
             (k2 - lower_singularity_threshold p) /
               (hard_stop_singularity_threshold p - lower_singularity_threshold p)"
    using assms(4) by (simp add: divide_right_mono)
  moreover have "lower_singularity_threshold p < k2" "k1 < hard_stop_singularity_threshold p"
    using assms by simp_all
  ultimately show ?thesis
    using assms
      velocity_scale_ramp [where ini = k1 and new = new1 and u = u1 and v = v1 and p = p
        and st = st1]
      velocity_scale_ramp [where ini = k2 and new = new2 and u = u2 and v = v2 and p = p
        and st = st2]
    by simp
qed

text \<open>
  C1. The claim puts the scale to 0 and the status to \<open>HALT_FOR_SINGULARITY\<close> for every
  condition number at or above the hard-stop threshold. The code tests
  \<open>ini_condition < hard_stop\<close> for the ramp and \<open>ini_condition > hard_stop\<close> for the halt, so
  a condition number equal to the threshold takes neither branch: with the singular vector
  along x, which is not flipped (the look-ahead condition \<open>k + 1\<close> is larger), and a
  commanded motion of 0.5 along x, so that their dot product is positive, the scale
  returned at \<open>ini_condition = hard_stop_singularity_threshold = k\<close> is 1 and the status is
  left as it was, whatever the lower threshold is. Below and above the threshold the scale is as
  the claim says (the lemmas above): 1 up to the lower threshold, the ramp between the
  thresholds, non-increasing there, and 0 with \<open>HALT_FOR_SINGULARITY\<close> above the hard stop.
\<close>

theorem C1_scale_at_hard_stop_threshold:
  "velocityScalingFactorForSingularity (p\<lparr>hard_stop_singularity_threshold := k\<rparr>)
     [1 / 2, 0, 0, 0, 0, 0] [1, 0, 0, 0, 0, 0] k (k + 1) st = (1, st)"
  by (simp add: velocityScalingFactorForSingularity_def dot_def)

section \<open>Command validation\<close>

lemma checkValidCommand_velocities_iff:
  "checkValidCommand_velocities vs = (\<not> list_ex isnan vs)"
  by (induction vs) auto

lemma checkValidCommand_TwistStamped_iff:
  "checkValidCommand_TwistStamped p cmd =
     (\<not> list_ex isnan [linear_x cmd, linear_y cmd, linear_z cmd,
                        angular_x cmd, angular_y cmd, angular_z cmd] \<and>
      \<not> (command_in_type p = ''unitless'' \<and>
         list_ex (\<lambda>x. fabs_gt x 1) [linear_x cmd, linear_y cmd, linear_z cmd,
                                    angular_x cmd, angular_y cmd, angular_z cmd]))"
  by (auto simp: checkValidCommand_TwistStamped_def)

lemma checkValidCommand_TwistStamped_unitless_out_of_range:
  "checkValidCommand_TwistStamped (p\<lparr>command_in_type := ''unitless''\<rparr>)
     \<lparr>twist_stamp = 1, twist_frame_id = [], linear_x = Val 2, linear_y = Val 0,
      linear_z = Val 0, angular_x = Val 0, angular_y = Val 0, angular_z = Val 0\<rparr> = False"
  by (simp add: checkValidCommand_TwistStamped_def)

text \<open>
  The scaling functions compute on reals; \<open>jointServoCalcs\<close> and \<open>cartesianServoCalcs\<close>
  call them after \<open>checkValidCommand\<close> has accepted the command, and on an accepted command
  they do not meet a NaN.
\<close>

lemma number_valid: "\<not> isnan x \<Longrightarrow> number x = Inr (case x of Val r \<Rightarrow> r | NaN \<Rightarrow> 0)"
  by (cases x) simp_all

lemma scaleCartesianCommand_valid:
  assumes "checkValidCommand_TwistStamped parameters cmd"
  shows "\<exists>delta_x. scaleCartesianCommand parameters
                     (enforceControlDimensions control cmd) = Inr delta_x"
proof -
  from assms have "\<not> isnan (linear_x cmd)" "\<not> isnan (linear_y cmd)" "\<not> isnan (linear_z cmd)"
    "\<not> isnan (angular_x cmd)" "\<not> isnan (angular_y cmd)" "\<not> isnan (angular_z cmd)"
    by (auto simp: checkValidCommand_TwistStamped_def split: if_splits)
  then show ?thesis
    by (simp add: scaleCartesianCommand_def twist_vector_def enforceControlDimensions_def
        number_valid)
qed

lemma scaleJointCommand_loop_valid:
  assumes "checkValidCommand_velocities vs"
  shows "scaleJointCommand_loop parameters name_map vs m names result \<noteq> Inl NotANumber"
  using assms
proof (induction names arbitrary: m result)
  case Nil
  then show ?case by simp
next
  case (Cons n names)
  have "\<not> isnan (vs ! m)" if "m < length vs"
    using that Cons.prems by (simp add: checkValidCommand_velocities_iff list_ex_iff)
  with Cons show ?case
    by (auto simp: number_valid split: option.splits)
qed

lemma scaleJointCommand_valid:
  "checkValidCommand_JointJog cmd \<Longrightarrow> scaleJointCommand parameters s cmd \<noteq> Inl NotANumber"
  by (simp add: scaleJointCommand_def checkValidCommand_JointJog_def scaleJointCommand_loop_valid)

text \<open>
  C7. The claim lets validation fail for a unitless command with a component of absolute
  value above 1, for both kinds of command. \<open>checkValidCommand\<close> for a \<open>JointJog\<close> tests
  for NaN only: a jog command with the single velocity 2 is valid, whatever
  \<open>command_in_type\<close> is, while the twist with the component 2 is rejected in unitless mode
  (the lemma above).
\<close>

theorem C7_joint_jog_out_of_range_is_valid:
  "checkValidCommand_JointJog
     \<lparr>jog_stamp = 1, jog_joint_names = [''joint_1''], jog_velocities = [Val 2]\<rparr> = True"
  by (simp add: checkValidCommand_JointJog_def)

section \<open>filteredHalt\<close>

lemma filteredHalt_velocities_closed:
  assumes "n \<le> length pos" "n \<le> length orig" "length vels = n" "i \<le> n"
  shows "filteredHalt_velocities period pos orig n i vels stopping =
           Inr (take i vels @ map (\<lambda>k. quotient (pos ! k - orig ! k) period) [i..<n],
                stopping \<and> (\<forall>k. i \<le> k \<and> k < n \<longrightarrow>
                               \<not> greater_than (quotient (pos ! k - orig ! k) period) STOPPED_VELOCITY_EPS))"
  using assms
proof (induction period pos orig n i vels stopping rule: filteredHalt_velocities.induct)
  case (1 period pos orig n i vels stopping)
  show ?case
  proof (cases "i < n")
    case False
    with "1.prems" show ?thesis
      by (subst filteredHalt_velocities.simps) auto
  next
    case True
    let ?v = "quotient (pos ! i - orig ! i) period"
    let ?st = "if greater_than ?v STOPPED_VELOCITY_EPS then False else stopping"
    have "filteredHalt_velocities period pos orig n (i + 1) (vels[i := ?v]) ?st =
           Inr (take (i + 1) (vels[i := ?v]) @
                map (\<lambda>k. quotient (pos ! k - orig ! k) period) [i + 1..<n],
                ?st \<and> (\<forall>k. i + 1 \<le> k \<and> k < n \<longrightarrow>
                          \<not> greater_than (quotient (pos ! k - orig ! k) period) STOPPED_VELOCITY_EPS))"
      using "1.IH" [of "pos ! i" "orig ! i" ?v] True "1.prems"
      by (simp add: vector_at_def)
    moreover have "take (i + 1) (vels[i := ?v]) = take i vels @ [?v]"
      using True "1.prems" by (simp add: take_Suc_conv_app_nth)
    moreover have "[i..<n] = i # [i + 1..<n]"
      using True by (simp add: upt_conv_Cons)
    moreover have "(?st \<and> (\<forall>k. i + 1 \<le> k \<and> k < n \<longrightarrow>
                          \<not> greater_than (quotient (pos ! k - orig ! k) period) STOPPED_VELOCITY_EPS)) =
          (stopping \<and> (\<forall>k. i \<le> k \<and> k < n \<longrightarrow>
                          \<not> greater_than (quotient (pos ! k - orig ! k) period) STOPPED_VELOCITY_EPS))"
    proof -
      have split: "(\<forall>k. i \<le> k \<and> k < n \<longrightarrow> P k) = (P i \<and> (\<forall>k. i + 1 \<le> k \<and> k < n \<longrightarrow> P k))"
        for P :: "nat \<Rightarrow> bool"
      proof
        assume all: "\<forall>k. i \<le> k \<and> k < n \<longrightarrow> P k"
        with True have "P i" by simp
        moreover have "\<forall>k. i + 1 \<le> k \<and> k < n \<longrightarrow> P k" using all by simp
        ultimately show "P i \<and> (\<forall>k. i + 1 \<le> k \<and> k < n \<longrightarrow> P k)" by simp
      next
        assume r: "P i \<and> (\<forall>k. i + 1 \<le> k \<and> k < n \<longrightarrow> P k)"
        show "\<forall>k. i \<le> k \<and> k < n \<longrightarrow> P k"
        proof (intro allI impI)
          fix k assume k: "i \<le> k \<and> k < n"
          show "P k"
          proof (cases "k = i")
            case True
            with r show ?thesis by simp
          next
            case False
            with k have "i + 1 \<le> k \<and> k < n" by simp
            with r show ?thesis by blast
          qed
        qed
      qed
      from split [of "\<lambda>k. \<not> greater_than (quotient (pos ! k - orig ! k) period) STOPPED_VELOCITY_EPS"]
      show ?thesis by auto
    qed
    ultimately show ?thesis
      using True "1.prems"
      by (subst filteredHalt_velocities.simps) (simp add: vector_at_def Let_def)
  qed
qed

lemma filteredHalt_done_stopping:
  assumes "publish_joint_velocities p" "\<not> publish_joint_accelerations p"
    and "publish_period p \<noteq> 0"
    and "num_joints s \<le> length (fst (doSmoothing c (smoother s) (position (original_joint_state s))))"
    and "num_joints s \<le> length (position (original_joint_state s))"
  shows "\<exists>s1 traj1. filteredHalt c p s traj = Inr (s1, traj1) \<and>
     (done_stopping s1 \<longleftrightarrow>
        (\<forall>k<num_joints s.
           (fst (doSmoothing c (smoother s) (position (original_joint_state s))) ! k -
            position (original_joint_state s) ! k) / publish_period p \<le> STOPPED_VELOCITY_EPS))"
  using assms
    filteredHalt_velocities_closed [where period = "publish_period p" and n = "num_joints s"
      and pos = "fst (doSmoothing c (smoother s) (position (original_joint_state s)))"
      and orig = "position (original_joint_state s)"
      and vels = "replicate (num_joints s) (Fin 0)" and i = 0 and stopping = True]
  by (auto simp: filteredHalt_def Let_def not_less quotient_def)

lemma filteredHalt_positive_velocity_keeps_stopping:
  "filteredHalt
     (c\<lparr>doSmoothing :=
          (\<lambda>st xs. (map2 (\<lambda>a b. (a + b) / 2) st xs, map2 (\<lambda>a b. (a + b) / 2) st xs))\<rparr>)
     (p\<lparr>publish_period := 1 / 100, publish_joint_velocities := True,
        publish_joint_accelerations := False\<rparr>)
     (s\<lparr>num_joints := 1,
        original_joint_state := \<lparr>name = [''joint_1''], position = [1], velocity = [Fin 0]\<rparr>,
        smoother := [2]\<rparr>)
     traj
   = Inr (s\<lparr>num_joints := 1,
            original_joint_state := \<lparr>name = [''joint_1''], position = [1], velocity = [Fin 0]\<rparr>,
            smoother := [3 / 2], done_stopping := False\<rparr>,
          traj\<lparr>points := [\<lparr>positions = [3 / 2], velocities = [Fin 50], accelerations = [],
                            time_from_start = 10000000\<rparr>]\<rparr>)"
  by (simp add: filteredHalt_def filteredHalt_velocities.simps vector_at_def quotient_def
      STOPPED_VELOCITY_EPS_def from_seconds_def Let_def)

text \<open>
  C3. The claim snaps the velocities to zero and sets \<open>done_stopping\<close> only when every
  joint has \<open>|v| \<le> 1e-4\<close>. The code compares the signed velocity with
  \<open>STOPPED_VELOCITY_EPS\<close>. One joint at position 1, velocities published every 10 ms, and
  a smoother that averages its input with its last output, which was 0: the smoothed
  position is 1/2 and the velocity is \<open>(1/2 - 1) / 0.01 = -50\<close>, far from stopped, yet
  \<open>-50 > 1e-4\<close> is false, so \<open>done_stopping\<close> is set and the published velocity is 0.
  With the last output 2 instead, the velocity is +50 and the joint counts as moving. In
  general \<open>done_stopping\<close> is set exactly when every signed velocity is at most 1e-4
  (the lemmas above).
\<close>

theorem C3_negative_velocity_counts_as_stopped:
  "filteredHalt
     (c\<lparr>doSmoothing :=
          (\<lambda>st xs. (map2 (\<lambda>a b. (a + b) / 2) st xs, map2 (\<lambda>a b. (a + b) / 2) st xs))\<rparr>)
     (p\<lparr>publish_period := 1 / 100, publish_joint_velocities := True,
        publish_joint_accelerations := False\<rparr>)
     (s\<lparr>num_joints := 1,
        original_joint_state := \<lparr>name = [''joint_1''], position = [1], velocity = [Fin 0]\<rparr>,
        smoother := [0]\<rparr>)
     traj
   = Inr (s\<lparr>num_joints := 1,
            original_joint_state := \<lparr>name = [''joint_1''], position = [1], velocity = [Fin 0]\<rparr>,
            smoother := [1 / 2], done_stopping := True\<rparr>,
          traj\<lparr>points := [\<lparr>positions = [1 / 2], velocities = [Fin 0], accelerations = [],
                            time_from_start = 10000000\<rparr>]\<rparr>)"
  by (simp add: filteredHalt_def filteredHalt_velocities.simps vector_at_def quotient_def
      STOPPED_VELOCITY_EPS_def from_seconds_def Let_def)

section \<open>The smoother: sanitising the input and the backward-motion search\<close>

lemma applySmoothing_too_few_waypoints:
  "getWayPointCount trajectory < 2 \<Longrightarrow>
   applySmoothing tc r trajectory a b = Some (Inr (False, trajectory))"
  by (simp add: applySmoothing_def sanitize_def Let_def split: option.splits)

lemma applySmoothing_short_segments:
  assumes "getGroup trajectory = Some grp" "2 \<le> getWayPointCount trajectory"
    and "getAverageSegmentDuration tc
           (remove_repeated_waypoints tc (getWayPointCount trajectory) 0 (unwind tc trajectory))
         < DEFAULT_RUCKIG_TIMESTEP"
  shows "\<exists>sanitized. applySmoothing tc r trajectory a b = Some (Inr (False, sanitized))"
  using assms by (simp add: applySmoothing_def sanitize_def Let_def)

lemma remove_repeated_waypoints_extends:
  "num_waypoints \<le> length (waypoints trajectory) \<Longrightarrow>
   prefix (waypoints trajectory)
     (waypoints (remove_repeated_waypoints tc num_waypoints waypoint_idx trajectory))"
proof (induction tc num_waypoints waypoint_idx trajectory rule: remove_repeated_waypoints.induct)
  case (1 tc num_waypoints waypoint_idx trajectory)
  show ?case
  proof (cases "waypoint_idx < num_waypoints - 1")
    case False
    then show ?thesis by (subst remove_repeated_waypoints.simps) simp
  next
    case True
    let ?next = "if checkForIdenticalWaypoints tc (waypoints trajectory ! waypoint_idx)
                (waypoints trajectory ! (waypoint_idx + 1))
           then trajectory
           else addSuffixWayPoint (waypoints trajectory ! waypoint_idx)
                  (getWayPointDurationFromPrevious trajectory waypoint_idx) trajectory"
    have ext: "prefix (waypoints trajectory) (waypoints ?next)"
      by (simp add: addSuffixWayPoint_def)
    then have "num_waypoints \<le> length (waypoints ?next)"
      using "1.prems" by (auto simp: addSuffixWayPoint_def)
    with "1.IH" [OF True] have "prefix (waypoints ?next)
        (waypoints (remove_repeated_waypoints tc num_waypoints (waypoint_idx + 1) ?next))"
      by simp
    with ext have "prefix (waypoints trajectory)
        (waypoints (remove_repeated_waypoints tc num_waypoints (waypoint_idx + 1) ?next))"
      by (rule prefix_order.trans)
    with True show ?thesis by (subst remove_repeated_waypoints.simps) simp
  qed
qed

text \<open>
  C5. The claim has consecutive waypoints closer than 1e-3 rad collapsed before the
  smoothing. The removal loop appends every waypoint that differs from its successor to
  the trajectory it iterates over, and removes nothing. One joint, waypoints at 0, 0, 1:
  the trajectory that passes the sanitising part and is handed to the step generator is
  0, 0, 1, 0. The two identical waypoints are still consecutive, and a copy of the second
  one follows the last. (The loop never shortens a trajectory, and the two failures of the
  claim's first half are as it says: the lemmas above.)
\<close>

theorem C5_repeated_waypoints_are_kept:
  "sanitize
     (tc\<lparr>unwind := (\<lambda>t. t),
         getAverageSegmentDuration :=
           (\<lambda>t. sum_list (duration_from_previous t) / real (length (duration_from_previous t))),
         distance :=
           (\<lambda>a b. sum_list (map2 (\<lambda>x y. \<bar>x - y\<bar>) (variable_position a) (variable_position b)))\<rparr>)
     \<lparr>getGroup = Some grp,
      waypoints =
        [\<lparr>variable_position = [0], variable_velocity = [0], variable_acceleration = [0]\<rparr>,
         \<lparr>variable_position = [0], variable_velocity = [0], variable_acceleration = [0]\<rparr>,
         \<lparr>variable_position = [1], variable_velocity = [0], variable_acceleration = [0]\<rparr>],
      duration_from_previous = [0, 1, 1]\<rparr>
   = Some (grp,
     \<lparr>getGroup = Some grp,
      waypoints =
        [\<lparr>variable_position = [0], variable_velocity = [0], variable_acceleration = [0]\<rparr>,
         \<lparr>variable_position = [0], variable_velocity = [0], variable_acceleration = [0]\<rparr>,
         \<lparr>variable_position = [1], variable_velocity = [0], variable_acceleration = [0]\<rparr>,
         \<lparr>variable_position = [0], variable_velocity = [0], variable_acceleration = [0]\<rparr>],
      duration_from_previous = [0, 1, 1, 1]\<rparr>)"
  by (simp add: sanitize_def getWayPointCount_def remove_repeated_waypoints.simps
      checkForIdenticalWaypoints_def IDENTICAL_POSITION_EPSILON_def addSuffixWayPoint_def
      getWayPointDurationFromPrevious_def DEFAULT_RUCKIG_TIMESTEP_def)

lemma bind_result_Inr:
  "bind_result r f = Inr y \<longleftrightarrow> (\<exists>x. r = Inr x \<and> f x = Inr y)"
  by (cases r) simp_all

lemma assign_at_Inr:
  "assign_at xs i v = Inr ys \<longleftrightarrow> i < length xs \<and> ys = xs[i := v]"
  by (auto simp: assign_at_def)

lemma getNextRuckigInput_from_target:
  assumes "getNextRuckigInput_from joint out wp num_dof idx inp = Inr inp'"
  shows "length (target_velocity inp') = length (target_velocity inp) \<and>
         length (target_acceleration inp') = length (target_acceleration inp) \<and>
         (\<forall>k. joint \<le> k \<and> k < num_dof \<longrightarrow>
            vector_at idx k \<noteq> Inl OutOfRange \<and>
            getVariable (variable_velocity wp) (idx ! k) = Inr (target_velocity inp' ! k) \<and>
            getVariable (variable_acceleration wp) (idx ! k) = Inr (target_acceleration inp' ! k)) \<and>
         (\<forall>k<joint. target_velocity inp' ! k = target_velocity inp ! k \<and>
                     target_acceleration inp' ! k = target_acceleration inp ! k)"
  using assms
proof (induction joint out wp num_dof idx inp rule: getNextRuckigInput_from.induct)
  case (1 joint out wp num_dof idx inp)
  show ?case
  proof (cases "joint < num_dof")
    case False
    with "1.prems" show ?thesis
      by (subst (asm) getNextRuckigInput_from.simps) auto
  next
    case True
    from "1.prems" True obtain np cp nv cv na ca index wpos tp wv tv wa ta where
      steps: "vector_at (new_position out) joint = Inr np"
        "assign_at (current_position inp) joint np = Inr cp"
        "vector_at (new_velocity out) joint = Inr nv"
        "assign_at (current_velocity inp) joint nv = Inr cv"
        "vector_at (new_acceleration out) joint = Inr na"
        "assign_at (current_acceleration inp) joint na = Inr ca"
        "vector_at idx joint = Inr index"
        "getVariable (variable_position wp) index = Inr wpos"
        "assign_at (target_position inp) joint wpos = Inr tp"
        "getVariable (variable_velocity wp) index = Inr wv"
        "assign_at (target_velocity inp) joint wv = Inr tv"
        "getVariable (variable_acceleration wp) index = Inr wa"
        "assign_at (target_acceleration inp) joint wa = Inr ta"
      and rest: "getNextRuckigInput_from (joint + 1) out wp num_dof idx
            (inp\<lparr>current_position := cp, current_velocity := cv,
                           current_acceleration := ca, target_position := tp,
                           target_velocity := tv, target_acceleration := ta\<rparr>) = Inr inp'"
      by (subst (asm) getNextRuckigInput_from.simps) (auto simp: bind_result_Inr)
    let ?inp1 = "inp\<lparr>current_position := cp, current_velocity := cv,
                           current_acceleration := ca, target_position := tp,
                           target_velocity := tv, target_acceleration := ta\<rparr>"
    from "1.IH" [OF True steps rest]
    have ih: "length (target_velocity inp') = length (target_velocity ?inp1)"
      "length (target_acceleration inp') = length (target_acceleration ?inp1)"
      "\<forall>k. joint + 1 \<le> k \<and> k < num_dof \<longrightarrow>
            vector_at idx k \<noteq> Inl OutOfRange \<and>
            getVariable (variable_velocity wp) (idx ! k) = Inr (target_velocity inp' ! k) \<and>
            getVariable (variable_acceleration wp) (idx ! k) = Inr (target_acceleration inp' ! k)"
      "\<forall>k<joint + 1. target_velocity inp' ! k = target_velocity ?inp1 ! k \<and>
                     target_acceleration inp' ! k = target_acceleration ?inp1 ! k"
      by simp_all
    from steps have tv: "joint < length (target_velocity inp)" "tv = (target_velocity inp)[joint := wv]"
      and ta: "joint < length (target_acceleration inp)"
        "ta = (target_acceleration inp)[joint := wa]"
      and ix: "joint < length idx" "index = idx ! joint"
      by (auto simp: assign_at_Inr vector_at_def split: if_splits)
    have here: "vector_at idx joint \<noteq> Inl OutOfRange \<and>
            getVariable (variable_velocity wp) (idx ! joint) = Inr (target_velocity inp' ! joint) \<and>
            getVariable (variable_acceleration wp) (idx ! joint) =
              Inr (target_acceleration inp' ! joint)"
      using ih(4) steps tv ta ix by simp
    have "\<forall>k. joint \<le> k \<and> k < num_dof \<longrightarrow>
            vector_at idx k \<noteq> Inl OutOfRange \<and>
            getVariable (variable_velocity wp) (idx ! k) = Inr (target_velocity inp' ! k) \<and>
            getVariable (variable_acceleration wp) (idx ! k) = Inr (target_acceleration inp' ! k)"
    proof (intro allI impI)
      fix k assume k: "joint \<le> k \<and> k < num_dof"
      show "vector_at idx k \<noteq> Inl OutOfRange \<and>
            getVariable (variable_velocity wp) (idx ! k) = Inr (target_velocity inp' ! k) \<and>
            getVariable (variable_acceleration wp) (idx ! k) = Inr (target_acceleration inp' ! k)"
      proof (cases "k = joint")
        case True
        with here show ?thesis by simp
      next
        case False
        with k have "joint + 1 \<le> k \<and> k < num_dof" by simp
        with ih(3) show ?thesis by blast
      qed
    qed
    moreover have "\<forall>k<joint. target_velocity inp' ! k = target_velocity inp ! k \<and>
                     target_acceleration inp' ! k = target_acceleration inp ! k"
      using ih(4) tv ta by simp
    ultimately show ?thesis using ih(1,2) tv ta by simp
  qed
qed

lemma while_body_restores_target:
  assumes "while_body tc num_dof idx target_waypoint st = Inr (Some st1)"
  shows "\<forall>k<num_dof.
           getVariable (variable_velocity target_waypoint) (idx ! k) =
             Inr (target_velocity (ruckig_in st1) ! k) \<and>
           getVariable (variable_acceleration target_waypoint) (idx ! k) =
             Inr (target_acceleration (ruckig_in st1) ! k)"
proof -
  from assms obtain out inp1 inp2 where
    "getNextRuckigInput out target_waypoint num_dof idx inp1 = Inr inp2"
    "ruckig_in st1 = inp2"
    by (auto simp: while_body_def Let_def bind_result_Inr split: if_splits prod.splits)
  with getNextRuckigInput_from_target [of 0 out target_waypoint num_dof idx inp1 inp2]
  show ?thesis by (simp add: getNextRuckigInput_def)
qed

lemma while_body_aborts_below_minimum:
  "while_body
     (tc\<lparr>update := (\<lambda>r i out.
           (Working,
            \<lparr>new_position = [0], new_velocity = [1 / 1000], new_acceleration = [0]\<rparr>, r))\<rparr>)
     1 [0]
     \<lparr>variable_position = [1], variable_velocity = [1 / 100], variable_acceleration = [0]\<rparr>
     \<lparr>ruckig = r0,
      ruckig_in =
        \<lparr>current_position = [0], current_velocity = [0], current_acceleration = [0],
         target_position = [1], target_velocity = [1 / 100], target_acceleration = [0],
         max_velocity = [5], max_acceleration = [10], max_jerk = [20]\<rparr>,
      ruckig_out = \<lparr>new_position = [0], new_velocity = [0], new_acceleration = [0]\<rparr>,
      output_trajectory = out0, velocity_magnitude = DBL_MAX,
      backward_motion_detected = True, ruckig_result = Working\<rparr>
   = Inr None"
proof -
  have "sqrt (81 / 1000000) = 9 / 1000"
    using real_sqrt_abs2 [of "9 / 1000"] by (simp add: power2_eq_square)
  then show ?thesis
    by (simp add: while_body_def checkForLaggingMotion_def checkForLaggingMotion_from.simps
        vector_at_def quotient_def decrease_target_velocity.simps assign_at_def
        getTargetVelocityMagnitude_def getTargetVelocityMagnitude_from.simps
        MINIMUM_VELOCITY_SEARCH_MAGNITUDE_def DEFAULT_RUCKIG_TIMESTEP_def)
qed

lemma while_body_false_needs_lagging:
  assumes "while_body tc num_dof idx target_waypoint st = Inr None"
    and "\<not> velocity_magnitude st < MINIMUM_VELOCITY_SEARCH_MAGNITUDE"
  shows "checkForLaggingMotion num_dof (ruckig_in st)
           (fst (snd (update tc (ruckig st) (ruckig_in st) (ruckig_out st)))) = Inr True"
proof -
  let ?out = "fst (snd (update tc (ruckig st) (ruckig_in st) (ruckig_out st)))"
  obtain r where r: "checkForLaggingMotion num_dof (ruckig_in st) ?out = r" by simp
  show ?thesis
  proof (cases r)
    case (Inl e)
    with r assms(1) show ?thesis by (simp add: while_body_def Let_def)
  next
    case (Inr backward)
    show ?thesis
    proof (cases backward)
      case True
      with Inr r show ?thesis by simp
    next
      case False
      with Inr r assms show ?thesis
        by (auto simp: while_body_def Let_def bind_result_def split: sum.splits)
    qed
  qed
qed

text \<open>
  The smoother does return true. On the one-joint trajectory the sanitising loop appends a
  copy of the first waypoint; the first pass has the target velocity 0 that the
  constructor of the input left, for which \<open>0 / 0\<close> is NaN and no lagging motion is seen;
  the second targets the velocity 1 of the second waypoint and reaches it.
\<close>

lemma DBL_MAX_large: "\<not> DBL_MAX < MINIMUM_VELOCITY_SEARCH_MAGNITUDE"
  by (simp add: DBL_MAX_def MINIMUM_VELOCITY_SEARCH_MAGNITUDE_def)

lemma sanitize_example:
  "sanitize example_smoothing example_trajectory =
     Some (example_group,
       example_trajectory
         \<lparr>waypoints := waypoints example_trajectory @
            [\<lparr>variable_position = [0], variable_velocity = [0],
              variable_acceleration = [0]\<rparr>],
          duration_from_previous := [0, 1, 0]\<rparr>)"
  by (simp add: sanitize_def example_trajectory_def example_smoothing_def getWayPointCount_def
      remove_repeated_waypoints.simps checkForIdenticalWaypoints_def
      IDENTICAL_POSITION_EPSILON_def addSuffixWayPoint_def getWayPointDurationFromPrevious_def
      DEFAULT_RUCKIG_TIMESTEP_def)

lemma applySmoothing_example:
  "applySmoothing example_smoothing () example_trajectory 1 1 =
     Some (Inr (True,
       \<lparr>getGroup = Some example_group,
        waypoints =
          [\<lparr>variable_position = [0], variable_velocity = [0], variable_acceleration = [0]\<rparr>,
           \<lparr>variable_position = [0], variable_velocity = [0], variable_acceleration = [0]\<rparr>,
           \<lparr>variable_position = [1], variable_velocity = [1], variable_acceleration = [0]\<rparr>],
        duration_from_previous = [0, 1 / 1000, 1 / 1000]\<rparr>))"
  by (simp only: applySmoothing_def sanitize_example)
     (simp add: example_group_def
      initializeRuckigState_def new_InputParameter_def new_OutputParameter_def
      group_values.simps copy_n_def getVariable_def setVariable_def vector_at_def assign_at_def
      kinematic_limits.simps smooth_waypoints.simps ruckig_while.simps while_body_def
      checkForLaggingMotion_def checkForLaggingMotion_from.simps quotient_def
      set_new_waypoint.simps getNextRuckigInput_def getNextRuckigInput_from.simps
      decrease_target_velocity.simps getTargetVelocityMagnitude_def
      getTargetVelocityMagnitude_from.simps DBL_MAX_large
      addSuffixWayPoint_def addPrefixWayPoint_def clear_def getWayPointCount_def
      example_trajectory_def example_smoothing_def Let_def
      DEFAULT_RUCKIG_TIMESTEP_def DEFAULT_MAX_JERK_def DEFAULT_MAX_VELOCITY_def
      DEFAULT_MAX_ACCELERATION_def)

text \<open>
  C4. The claim has the step retried with the target velocity multiplied by 0.9. The body
  of the while loop does scale the target velocity when it detects lagging motion, and
  tests the scaled magnitude, but it ends with \<open>getNextRuckigInput\<close>, which writes the
  velocity and acceleration of the target waypoint back into the input and takes the
  lagging output as the current state. One joint, target velocity 1, and a Ruckig step
  from rest (velocity 1e-5 after 1 ms): lagging motion is detected, the magnitude tested
  is 0.9, and the input of the next pass has the target velocity 1 and the target
  acceleration 0 of the waypoint again, not 0.9 and \<open>(0.9 - 1e-5) / 0.001\<close>. This is so
  for every pass that does not return (lemma \<open>while_body_restores_target\<close>), so the
  decrease never accumulates from one pass to the next. A pass returns false only if it
  detects lagging motion itself (lemma \<open>while_body_false_needs_lagging\<close>) and the target
  velocity it started with, scaled once, is below the floor (lemma
  \<open>while_body_aborts_below_minimum\<close>, for a target velocity of 0.01).
\<close>

theorem C4_decreased_target_velocity_is_overwritten:
  "while_body
     (tc\<lparr>update := (\<lambda>r i out.
           (Working,
            \<lparr>new_position = [1 / 300000000], new_velocity = [1 / 100000],
             new_acceleration = [1 / 50]\<rparr>, r))\<rparr>)
     1 [0]
     \<lparr>variable_position = [1], variable_velocity = [1], variable_acceleration = [0]\<rparr>
     \<lparr>ruckig = r0,
      ruckig_in =
        \<lparr>current_position = [0], current_velocity = [0], current_acceleration = [0],
         target_position = [1], target_velocity = [1], target_acceleration = [0],
         max_velocity = [5], max_acceleration = [10], max_jerk = [20]\<rparr>,
      ruckig_out = \<lparr>new_position = [0], new_velocity = [0], new_acceleration = [0]\<rparr>,
      output_trajectory = out0, velocity_magnitude = DBL_MAX,
      backward_motion_detected = True, ruckig_result = Working\<rparr>
   = Inr (Some
     \<lparr>ruckig = r0,
      ruckig_in =
        \<lparr>current_position = [1 / 300000000], current_velocity = [1 / 100000],
         current_acceleration = [1 / 50],
         target_position = [1], target_velocity = [1], target_acceleration = [0],
         max_velocity = [5], max_acceleration = [10], max_jerk = [20]\<rparr>,
      ruckig_out =
        \<lparr>new_position = [1 / 300000000], new_velocity = [1 / 100000],
         new_acceleration = [1 / 50]\<rparr>,
      output_trajectory = out0, velocity_magnitude = 9 / 10,
      backward_motion_detected = True, ruckig_result = Working\<rparr>)"
proof -
  have sq: "sqrt (81 / 100) = 9 / 10"
    using real_sqrt_abs2 [of "9 / 10"] by (simp add: power2_eq_square)
  show ?thesis
    by (simp add: while_body_def checkForLaggingMotion_def checkForLaggingMotion_from.simps
        vector_at_def quotient_def decrease_target_velocity.simps assign_at_def
        getTargetVelocityMagnitude_def getTargetVelocityMagnitude_from.simps
        MINIMUM_VELOCITY_SEARCH_MAGNITUDE_def DEFAULT_RUCKIG_TIMESTEP_def
        getNextRuckigInput_def getNextRuckigInput_from.simps getVariable_def sq)
qed

section \<open>Removal of the drift dimensions\<close>

lemma block_shift:
  assumes "row < length xs"
  shows "take (length xs - 1)
           (if row < length xs - 1
            then take row xs @ take (length xs - 1 - row) (drop (row + 1) xs) @
                 drop (length xs - 1) xs
            else xs) = take row xs @ drop (Suc row) xs"
proof (cases "row < length xs - 1")
  case True
  then show ?thesis by (simp add: min_def)
next
  case False
  with assms have "row = length xs - 1" by simp
  with assms show ?thesis by simp
qed

lemma removeDimension_removes_row:
  assumes "row < length m" "length d = length m"
  shows "removeDimension m d row = (take row m @ drop (Suc row) m, take row d @ drop (Suc row) d)"
proof -
  have "row < length d" using assms by simp
  from block_shift [OF assms(1)] block_shift [OF this] assms(2) show ?thesis
    by (cases "row < length m - 1") (simp_all add: removeDimension_def Let_def)
qed

lemma removeDriftDimensions_six:
  "removeDriftDimensions [p, q, r, s, t, u] [a, b, c, d, e, f] [x0, x1, x2, x3, x4, x5] =
     Some (if p \<and> q \<and> r \<and> s \<and> t \<and> u then ([a], [x0])
           else (map fst (filter (\<lambda>rb. \<not> snd rb) (zip [a, b, c, d, e, f] [p, q, r, s, t, u])),
                 map fst (filter (\<lambda>rb. \<not> snd rb) (zip [x0, x1, x2, x3, x4, x5] [p, q, r, s, t, u]))))"
  by (cases p; cases q; cases r; cases s; cases t; cases u;
      simp add: removeDriftDimensions_def removeDimension_def numeral_eq_Suc)

text \<open>
  C8. For a Jacobian of six rows, a \<open>delta_x\<close> of six entries and a drift mask of six
  flags. First part: the iteration for row \<open>i\<close> (rows are visited from the highest index
  down) removes row \<open>i\<close> of the matrix and entry \<open>i\<close> of the vector exactly when
  \<open>drift_dimensions[i]\<close> is set and the matrix still has more than one row, and goes on
  with row \<open>i - 1\<close>. Second part: the function returns; when some flag is clear the result
  is the rows and entries whose flag is clear, in their order, and when all six flags are
  set it is row 0 and entry 0 alone. The result is a subsequence of the input and has at
  least one row.
\<close>

theorem C8_removeDriftDimensions:
  assumes "length J = 6" "length delta_x = 6" "length drift = 6"
  shows "(\<forall>i m d. i < length m \<and> length d = length m \<and> i < 6 \<longrightarrow>
            removeDriftLoop drift (Suc i) (m, d) =
              removeDriftLoop drift i
                (if drift ! i \<and> length m > 1
                 then (take i m @ drop (Suc i) m, take i d @ drop (Suc i) d) else (m, d))) \<and>
         (\<exists>J' delta_x'.
            removeDriftDimensions drift J delta_x = Some (J', delta_x') \<and>
            J' = (if list_all (\<lambda>b. b) drift then [J ! 0]
                  else map fst (filter (\<lambda>rb. \<not> snd rb) (zip J drift))) \<and>
            delta_x' = (if list_all (\<lambda>b. b) drift then [delta_x ! 0]
                        else map fst (filter (\<lambda>rb. \<not> snd rb) (zip delta_x drift))) \<and>
            subseq J' J \<and> subseq delta_x' delta_x \<and>
            1 \<le> length J' \<and> length delta_x' = length J')"
proof (intro conjI allI impI)
  fix i and m :: "real list list" and d :: "real list"
  assume "i < length m \<and> length d = length m \<and> i < 6"
  then show "removeDriftLoop drift (Suc i) (m, d) =
              removeDriftLoop drift i
                (if drift ! i \<and> length m > 1
                 then (take i m @ drop (Suc i) m, take i d @ drop (Suc i) d) else (m, d))"
    using assms(3) by (simp add: removeDimension_removes_row)
next
  obtain a b c d e f where J: "J = [a, b, c, d, e, f]"
    using assms(1) by (auto simp: numeral_eq_Suc length_Suc_conv)
  obtain x0 x1 x2 x3 x4 x5 where X: "delta_x = [x0, x1, x2, x3, x4, x5]"
    using assms(2) by (auto simp: numeral_eq_Suc length_Suc_conv)
  obtain p q r s t u where D: "drift = [p, q, r, s, t, u]"
    using assms(3) by (auto simp: numeral_eq_Suc length_Suc_conv)
  have sub: "subseq (map fst (filter P (zip xs ys))) xs" if "length xs = length ys"
    for P and xs :: "'a list" and ys :: "bool list"
    using that by (induction xs ys rule: list_induct2) auto
  have len: "length (map fst (filter (\<lambda>rb. \<not> snd rb) (zip xs ys))) = length (filter Not ys)"
    if "length xs = length ys" for xs :: "'a list" and ys :: "bool list"
    using that by (induction xs ys rule: list_induct2) auto
  have nonempty: "1 \<le> length (filter Not drift)" if "\<not> list_all (\<lambda>b. b) drift"
  proof -
    from that obtain b where "b \<in> set drift" "\<not> b" by (auto simp: list_all_iff)
    then have "filter Not drift \<noteq> []" by (auto simp: filter_empty_conv)
    then show ?thesis by (cases "filter Not drift") auto
  qed
  show "\<exists>J' delta_x'.
            removeDriftDimensions drift J delta_x = Some (J', delta_x') \<and>
            J' = (if list_all (\<lambda>b. b) drift then [J ! 0]
                  else map fst (filter (\<lambda>rb. \<not> snd rb) (zip J drift))) \<and>
            delta_x' = (if list_all (\<lambda>b. b) drift then [delta_x ! 0]
                        else map fst (filter (\<lambda>rb. \<not> snd rb) (zip delta_x drift))) \<and>
            subseq J' J \<and> subseq delta_x' delta_x \<and>
            1 \<le> length J' \<and> length delta_x' = length J'"
  proof (cases "list_all (\<lambda>b. b) drift")
    case True
    then have "removeDriftDimensions drift J delta_x = Some ([J ! 0], [delta_x ! 0])"
      unfolding J X D using removeDriftDimensions_six [of p q r s t u a b c d e f x0 x1 x2 x3 x4 x5]
      by simp
    moreover have "subseq [J ! 0] J" "subseq [delta_x ! 0] delta_x"
      unfolding J X by simp_all
    ultimately show ?thesis using True by simp
  next
    case False
    then have "removeDriftDimensions drift J delta_x =
        Some (map fst (filter (\<lambda>rb. \<not> snd rb) (zip J drift)),
              map fst (filter (\<lambda>rb. \<not> snd rb) (zip delta_x drift)))"
      unfolding J X D using removeDriftDimensions_six [of p q r s t u a b c d e f x0 x1 x2 x3 x4 x5]
      by simp
    moreover have "subseq (map fst (filter (\<lambda>rb. \<not> snd rb) (zip J drift))) J"
      "subseq (map fst (filter (\<lambda>rb. \<not> snd rb) (zip delta_x drift))) delta_x"
      using sub [of J drift] sub [of delta_x drift] assms by simp_all
    moreover have "1 \<le> length (map fst (filter (\<lambda>rb. \<not> snd rb) (zip J drift)))"
      "length (map fst (filter (\<lambda>rb. \<not> snd rb) (zip delta_x drift))) =
       length (map fst (filter (\<lambda>rb. \<not> snd rb) (zip J drift)))"
      using len [of J drift] len [of delta_x drift] nonempty [OF False] assms by simp_all
    ultimately show ?thesis using False by simp
  qed
qed

theorem C8_removeDriftDimensions_witness:
  "removeDriftDimensions [True, False, False, True, False, False]
     [[1, 0], [0, 1], [2, 0], [0, 2], [3, 0], [0, 3]] [10, 20, 30, 40, 50, 60] =
     Some ([[0, 1], [2, 0], [3, 0], [0, 3]], [20, 30, 50, 60]) \<and>
   removeDriftDimensions [True, True, True, True, True, True]
     [[1, 0], [0, 1], [2, 0], [0, 2], [3, 0], [0, 3]] [10, 20, 30, 40, 50, 60] =
     Some ([[1, 0]], [10])"
  using C8_removeDriftDimensions
          [of "[[1, 0], [0, 1], [2, 0], [0, 2], [3, 0], [0, 3]]" "[10, 20, 30, 40, 50, 60]"
              "[True, False, False, True, False, False]"]
        C8_removeDriftDimensions
          [of "[[1, 0], [0, 1], [2, 0], [0, 2], [3, 0], [0, 3]]" "[10, 20, 30, 40, 50, 60]"
              "[True, True, True, True, True, True]"]
  by simp

section \<open>The lagging-motion test\<close>






section \<open>Commands with a stamp of zero\<close>

lemma waiting_twistStampedCB:
  "waiting s \<Longrightarrow> twist_stamp msg = 0 \<Longrightarrow>
   waiting (twistStampedCB msg s) \<and>
   latest_twist_command_stamp (twistStampedCB msg s) = latest_twist_command_stamp s \<and>
   latest_joint_command_stamp (twistStampedCB msg s) = latest_joint_command_stamp s"
  by (simp add: waiting_def twistStampedCB_def)

lemma waiting_jointCmdCB:
  "waiting s \<Longrightarrow> jog_stamp msg = 0 \<Longrightarrow>
   waiting (jointCmdCB msg s) \<and>
   latest_twist_command_stamp (jointCmdCB msg s) = latest_twist_command_stamp s \<and>
   latest_joint_command_stamp (jointCmdCB msg s) = latest_joint_command_stamp s"
  by (simp add: waiting_def jointCmdCB_def)

lemma cycle_inputs_waiting:
  assumes "waiting s"
  shows "wait_for_servo_commands (cycle_inputs c p s)"
    "twist_stamp (twist_stamped_cmd (cycle_inputs c p s)) = 0"
    "jog_stamp (joint_servo_cmd (cycle_inputs c p s)) = 0"
    "latest_twist_stamped (cycle_inputs c p s) = latest_twist_stamped s"
    "latest_joint_cmd (cycle_inputs c p s) = latest_joint_cmd s"
    "latest_twist_command_stamp (cycle_inputs c p s) = latest_twist_command_stamp s"
    "latest_joint_command_stamp (cycle_inputs c p s) = latest_joint_command_stamp s"
  using assms
  by (auto simp: waiting_def cycle_inputs_def updateJoints_def Let_def split: option.splits)

lemma waiting_calculateSingleIteration:
  assumes "waiting s"
  shows "\<exists>s1. calculateSingleIteration c p s = Inr (s1, [StatusMsg (status s)]) \<and> waiting s1 \<and>
     latest_twist_command_stamp s1 = latest_twist_command_stamp s \<and>
     latest_joint_command_stamp s1 = latest_joint_command_stamp s"
  using cycle_inputs_waiting [OF assms, of c p] assms
  by (simp add: calculateSingleIteration_def Let_def resetLowPassFilters_def waiting_def)

lemma servo_run_waiting:
  assumes "list_all stamp_is_zero events" "waiting s"
  shows "\<exists>s1. servo_run p events s = Inr s1 \<and> waiting s1 \<and>
     latest_twist_command_stamp s1 = latest_twist_command_stamp s \<and>
     latest_joint_command_stamp s1 = latest_joint_command_stamp s"
  using assms
proof (induction events arbitrary: s)
  case Nil
  then show ?case by simp
next
  case (Cons ev events)
  show ?case
  proof (cases ev)
    case (TwistStampedReceived msg)
    with Cons.prems have z: "twist_stamp msg = 0" and rest: "list_all stamp_is_zero events" by simp_all
    from waiting_twistStampedCB [OF Cons.prems(2) z] Cons.IH [OF rest, of "twistStampedCB msg s"]
    show ?thesis unfolding TwistStampedReceived by auto
  next
    case (JointJogReceived msg)
    with Cons.prems have z: "jog_stamp msg = 0" and rest: "list_all stamp_is_zero events" by simp_all
    from waiting_jointCmdCB [OF Cons.prems(2) z] Cons.IH [OF rest, of "jointCmdCB msg s"]
    show ?thesis unfolding JointJogReceived by auto
  next
    case (Iteration c)
    with Cons.prems have rest: "list_all stamp_is_zero events" by simp
    from waiting_calculateSingleIteration [OF Cons.prems(2), of c p]
    obtain s1 where s1: "calculateSingleIteration c p s = Inr (s1, [StatusMsg (status s)])"
      "waiting s1" "latest_twist_command_stamp s1 = latest_twist_command_stamp s"
      "latest_joint_command_stamp s1 = latest_joint_command_stamp s" by blast
    from Cons.IH [OF rest s1(2)] s1 show ?thesis unfolding Iteration by auto
  qed
qed

lemma not_equal_zero_iff: "not_equal_zero d = (d \<noteq> Val 0)"
  by (cases d) simp_all

lemma isNonZero_TwistStamped_iff:
  "isNonZero_TwistStamped msg =
     (linear_x msg \<noteq> Val 0 \<or> linear_y msg \<noteq> Val 0 \<or> linear_z msg \<noteq> Val 0 \<or>
      angular_x msg \<noteq> Val 0 \<or> angular_y msg \<noteq> Val 0 \<or> angular_z msg \<noteq> Val 0)"
  by (simp add: isNonZero_TwistStamped_def not_equal_zero_iff)

lemma all_zeros_fold:
  "fold (\<lambda>delta all_zeros. all_zeros \<and> \<not> not_equal_zero delta) vs b =
     (b \<and> (\<forall>v\<in>set vs. v = Val 0))"
  by (induction vs arbitrary: b) (auto simp: not_equal_zero_iff)

lemma isNonZero_JointJog_iff:
  "isNonZero_JointJog msg = (\<exists>v\<in>set (jog_velocities msg). v \<noteq> Val 0)"
  by (simp add: isNonZero_JointJog_def all_zeros_fold)

text \<open>
  C9. In every state, a twist or jog command whose header stamp is 0 is stored, the
  nonzero flag of its kind is set to whether one of its components is not zero, and
  \<open>new_input_cmd\<close> is raised; nothing else changes, so \<open>latest_twist_command_stamp\<close> and
  \<open>latest_joint_command_stamp\<close> keep their values. From a state that waits for its first
  command, any run of command receipts with stamp 0 and loop iterations runs without
  error and ends in a state that still waits, with both stamps unchanged.
\<close>

theorem C9_stamp_zero_never_ends_waiting:
  assumes "list_all stamp_is_zero events" and "waiting s"
  shows "(\<forall>t msg. twist_stamp msg = 0 \<longrightarrow>
            twistStampedCB msg t =
              t\<lparr>latest_twist_stamped := Some msg,
                latest_twist_cmd_is_nonzero :=
                  (linear_x msg \<noteq> Val 0 \<or> linear_y msg \<noteq> Val 0 \<or> linear_z msg \<noteq> Val 0 \<or>
                   angular_x msg \<noteq> Val 0 \<or> angular_y msg \<noteq> Val 0 \<or>
                   angular_z msg \<noteq> Val 0),
                new_input_cmd := True\<rparr> \<and>
            latest_twist_command_stamp (twistStampedCB msg t) = latest_twist_command_stamp t \<and>
            latest_joint_command_stamp (twistStampedCB msg t) = latest_joint_command_stamp t) \<and>
         (\<forall>t msg. jog_stamp msg = 0 \<longrightarrow>
            jointCmdCB msg t =
              t\<lparr>latest_joint_cmd := Some msg,
                latest_joint_cmd_is_nonzero := (\<exists>v\<in>set (jog_velocities msg). v \<noteq> Val 0),
                new_input_cmd := True\<rparr> \<and>
            latest_twist_command_stamp (jointCmdCB msg t) = latest_twist_command_stamp t \<and>
            latest_joint_command_stamp (jointCmdCB msg t) = latest_joint_command_stamp t) \<and>
         (\<exists>s1. servo_run parameters events s = Inr s1 \<and> wait_for_servo_commands s1 \<and>
               latest_twist_command_stamp s1 = latest_twist_command_stamp s \<and>
               latest_joint_command_stamp s1 = latest_joint_command_stamp s)"
proof -
  have twist: "\<forall>t msg. twist_stamp msg = 0 \<longrightarrow>
            twistStampedCB msg t =
              t\<lparr>latest_twist_stamped := Some msg,
                latest_twist_cmd_is_nonzero :=
                  (linear_x msg \<noteq> Val 0 \<or> linear_y msg \<noteq> Val 0 \<or> linear_z msg \<noteq> Val 0 \<or>
                   angular_x msg \<noteq> Val 0 \<or> angular_y msg \<noteq> Val 0 \<or>
                   angular_z msg \<noteq> Val 0),
                new_input_cmd := True\<rparr> \<and>
            latest_twist_command_stamp (twistStampedCB msg t) = latest_twist_command_stamp t \<and>
            latest_joint_command_stamp (twistStampedCB msg t) = latest_joint_command_stamp t"
    by (simp add: twistStampedCB_def isNonZero_TwistStamped_iff)
  have jog: "\<forall>t msg. jog_stamp msg = 0 \<longrightarrow>
            jointCmdCB msg t =
              t\<lparr>latest_joint_cmd := Some msg,
                latest_joint_cmd_is_nonzero := (\<exists>v\<in>set (jog_velocities msg). v \<noteq> Val 0),
                new_input_cmd := True\<rparr> \<and>
            latest_twist_command_stamp (jointCmdCB msg t) = latest_twist_command_stamp t \<and>
            latest_joint_command_stamp (jointCmdCB msg t) = latest_joint_command_stamp t"
    by (simp add: jointCmdCB_def isNonZero_JointJog_iff)
  from servo_run_waiting [OF assms, of parameters]
  have run: "\<exists>s1. servo_run parameters events s = Inr s1 \<and> wait_for_servo_commands s1 \<and>
               latest_twist_command_stamp s1 = latest_twist_command_stamp s \<and>
               latest_joint_command_stamp s1 = latest_joint_command_stamp s"
    by (auto simp: waiting_def)
  show ?thesis by (rule conjI [OF twist conjI [OF jog run]])
qed

theorem C9_stamp_zero_never_ends_waiting_witness:
  "twistStampedCB
     \<lparr>twist_stamp = 0, twist_frame_id = ''tool0'', linear_x = Val 1, linear_y = Val 0,
      linear_z = Val 0, angular_x = Val 0, angular_y = Val 0, angular_z = Val 0\<rparr>
     (example_state\<lparr>wait_for_servo_commands := False, latest_twist_command_stamp := 7\<rparr>) =
   example_state
     \<lparr>wait_for_servo_commands := False, latest_twist_command_stamp := 7,
      latest_twist_stamped :=
        Some \<lparr>twist_stamp = 0, twist_frame_id = ''tool0'', linear_x = Val 1, linear_y = Val 0,
              linear_z = Val 0, angular_x = Val 0, angular_y = Val 0, angular_z = Val 0\<rparr>,
      latest_twist_cmd_is_nonzero := True, new_input_cmd := True\<rparr> \<and>
   jointCmdCB
     \<lparr>jog_stamp = 0, jog_joint_names = [''joint_1''], jog_velocities = [Val 1]\<rparr>
     (example_state\<lparr>wait_for_servo_commands := False, latest_joint_command_stamp := 7\<rparr>) =
   example_state
     \<lparr>wait_for_servo_commands := False, latest_joint_command_stamp := 7,
      latest_joint_cmd :=
        Some \<lparr>jog_stamp = 0, jog_joint_names = [''joint_1''], jog_velocities = [Val 1]\<rparr>,
      latest_joint_cmd_is_nonzero := True, new_input_cmd := True\<rparr> \<and>
   (\<exists>s1. servo_run example_parameters
          [TwistStampedReceived
             \<lparr>twist_stamp = 0, twist_frame_id = ''tool0'', linear_x = Val 1, linear_y = Val 0,
              linear_z = Val 0, angular_x = Val 0, angular_y = Val 0, angular_z = Val 0\<rparr>,
           Iteration example_collaborators,
           JointJogReceived
             \<lparr>jog_stamp = 0, jog_joint_names = [''joint_1''], jog_velocities = [Val 1]\<rparr>,
           Iteration example_collaborators]
          example_state = Inr s1 \<and>
        wait_for_servo_commands s1 \<and>
        latest_twist_command_stamp s1 = 0 \<and> latest_joint_command_stamp s1 = 0)"
proof -
  let ?twist = "\<lparr>twist_stamp = 0, twist_frame_id = ''tool0'', linear_x = Val 1,
      linear_y = Val 0, linear_z = Val 0, angular_x = Val 0, angular_y = Val 0,
      angular_z = Val 0\<rparr>"
  let ?jog = "\<lparr>jog_stamp = 0, jog_joint_names = [''joint_1''], jog_velocities = [Val 1]\<rparr>"
  let ?events = "[TwistStampedReceived ?twist, Iteration example_collaborators,
      JointJogReceived ?jog, Iteration example_collaborators]"
  have ev: "list_all stamp_is_zero ?events"
    by simp
  have w: "waiting example_state"
    by (simp add: waiting_def example_state_def)
  have z: "latest_twist_command_stamp example_state = 0"
    "latest_joint_command_stamp example_state = 0"
    by (simp_all add: example_state_def)
  note all = C9_stamp_zero_never_ends_waiting [OF ev w, of example_parameters]
  from all [THEN conjunct1, rule_format, where msg = ?twist and
      t = "example_state\<lparr>wait_for_servo_commands := False, latest_twist_command_stamp := 7\<rparr>"]
  have A: "twistStampedCB ?twist
      (example_state\<lparr>wait_for_servo_commands := False, latest_twist_command_stamp := 7\<rparr>) =
    example_state
     \<lparr>wait_for_servo_commands := False, latest_twist_command_stamp := 7,
      latest_twist_stamped := Some ?twist,
      latest_twist_cmd_is_nonzero := True, new_input_cmd := True\<rparr>"
    by simp
  from all [THEN conjunct2, THEN conjunct1, rule_format, where msg = ?jog and
      t = "example_state\<lparr>wait_for_servo_commands := False, latest_joint_command_stamp := 7\<rparr>"]
  have B: "jointCmdCB ?jog
      (example_state\<lparr>wait_for_servo_commands := False, latest_joint_command_stamp := 7\<rparr>) =
    example_state
     \<lparr>wait_for_servo_commands := False, latest_joint_command_stamp := 7,
      latest_joint_cmd := Some ?jog,
      latest_joint_cmd_is_nonzero := True, new_input_cmd := True\<rparr>"
    by simp
  from all obtain s1 where "servo_run example_parameters ?events example_state = Inr s1"
    "wait_for_servo_commands s1"
    "latest_twist_command_stamp s1 = latest_twist_command_stamp example_state"
    "latest_joint_command_stamp s1 = latest_joint_command_stamp example_state"
    by blast
  with z have C: "\<exists>s1. servo_run example_parameters ?events example_state = Inr s1 \<and>
        wait_for_servo_commands s1 \<and>
        latest_twist_command_stamp s1 = 0 \<and> latest_joint_command_stamp s1 = 0"
    by (intro exI [of _ s1] conjI; simp only:)
  show ?thesis by (rule conjI [OF A conjI [OF B C]])
qed

section \<open>The position-limit halt\<close>

lemma find_distance_member:
  "x \<in> set xs \<Longrightarrow> find_distance x xs < length xs \<and> xs ! find_distance x xs = x"
  by (induction xs) auto

lemma find_distance_absent: "x \<notin> set xs \<Longrightarrow> find_distance x xs = length xs"
  by (induction xs) auto

lemma find_distance_nth:
  "distinct xs \<Longrightarrow> i < length xs \<Longrightarrow> find_distance (xs ! i) xs = i"
  by (induction xs arbitrary: i) (auto simp: nth_Cons split: nat.splits)

lemma lookup_joint_angle_found:
  "jn \<in> set names \<Longrightarrow>
   lookup_joint_angle names c pos jn a0 = vector_at pos (c + find_distance jn names)"
  by (induction names arbitrary: c) auto

lemma enforcePositionLimits_loop_filter:
  assumes "length (position js) = length (name js)" "length (velocity js) = length (name js)"
    and "\<forall>j\<in>set joints. getName j \<in> set (name js)"
  shows "enforcePositionLimits_loop p js joints a0 acc =
           Inr (acc @ filter (halt_candidate p js) joints)"
  using assms(3)
proof (induction joints arbitrary: a0 acc)
  case Nil
  then show ?case by simp
next
  case (Cons j joints)
  then have mem: "getName j \<in> set (name js)" by simp
  let ?i = "find_distance (getName j) (name js)"
  from find_distance_member [OF mem] have i: "?i < length (name js)" by simp
  have angle: "lookup_joint_angle (name js) 0 (position js) (getName j) a0 = Inr (position js ! ?i)"
    using lookup_joint_angle_found [OF mem, of 0 "position js" a0] i assms(1)
    by (simp add: vector_at_def)
  have vel: "vector_at (velocity js) ?i = Inr (velocity js ! ?i)"
    using i assms(2) by (simp add: vector_at_def)
  have rest: "\<And>a acc. enforcePositionLimits_loop p js joints a acc =
           Inr (acc @ filter (halt_candidate p js) joints)"
    using Cons by simp
  show ?case
  proof (cases "getVariableBoundsMsg j")
    case Nil
    then have "\<not> halt_candidate p js j" by (simp add: halt_candidate_def)
    with Nil show ?thesis
      using angle rest by (simp add: satisfiesPositionBounds_def)
  next
    case (Cons l ls)
    then have "halt_candidate p js j =
        ((less_than (velocity js ! ?i) 0 \<and> position js ! ?i < min_position l + joint_limit_margin p) \<or>
         (greater_than (velocity js ! ?i) 0 \<and> position js ! ?i > max_position l - joint_limit_margin p))"
      by (simp add: halt_candidate_def Let_def)
    with Cons show ?thesis
      using angle vel rest by (auto simp: satisfiesPositionBounds_def)
  qed
qed

lemma suddenHalt_effect:
  assumes "distinct (name js)"
    and "length (position js) = length (name js)" "length (velocity js) = length (name js)"
    and "length (position (original_joint_state s)) = length (name js)"
  shows "\<exists>js'. suddenHalt s js joints = Inr js' \<and> name js' = name js \<and>
           length (position js') = length (name js) \<and> length (velocity js') = length (name js) \<and>
           (\<forall>i<length (name js).
              position js' ! i =
                (if name js ! i \<in> getName ` set joints
                 then position (original_joint_state s) ! i else position js ! i) \<and>
              velocity js' ! i =
                (if name js ! i \<in> getName ` set joints then Fin 0 else velocity js ! i))"
  using assms
proof (induction joints arbitrary: js)
  case Nil
  then show ?case by simp
next
  case (Cons j joints)
  let ?i = "find_distance (getName j) (name js)"
  show ?case
  proof (cases "getName j \<in> set (name js)")
    case False
    then have "?i = length (name js)" by (rule find_distance_absent)
    moreover have "\<forall>i<length (name js). name js ! i \<noteq> getName j"
      using False by (metis nth_mem)
    moreover note Cons.IH [OF Cons.prems]
    ultimately show ?thesis by auto
  next
    case True
    from find_distance_member [OF True]
    have i: "?i < length (name js)" and ni: "name js ! ?i = getName j" by simp_all
    let ?js1 = "js\<lparr>position := (position js)[?i := position (original_joint_state s) ! ?i],
                    velocity := (velocity js)[?i := Fin 0]\<rparr>"
    have step: "suddenHalt s js (j # joints) = suddenHalt s ?js1 joints"
      using i Cons.prems by (simp add: Let_def vector_at_def)
    have "\<exists>js'. suddenHalt s ?js1 joints = Inr js' \<and> name js' = name ?js1 \<and>
           length (position js') = length (name ?js1) \<and>
           length (velocity js') = length (name ?js1) \<and>
           (\<forall>i<length (name ?js1).
              position js' ! i =
                (if name ?js1 ! i \<in> getName ` set joints
                 then position (original_joint_state s) ! i else position ?js1 ! i) \<and>
              velocity js' ! i =
                (if name ?js1 ! i \<in> getName ` set joints then Fin 0 else velocity ?js1 ! i))"
      using Cons.prems by (intro Cons.IH) simp_all
    then obtain js' where js': "suddenHalt s ?js1 joints = Inr js'" "name js' = name js"
      "length (position js') = length (name js)" "length (velocity js') = length (name js)"
      and pt: "\<forall>i<length (name js).
              position js' ! i =
                (if name js ! i \<in> getName ` set joints
                 then position (original_joint_state s) ! i else position ?js1 ! i) \<and>
              velocity js' ! i =
                (if name js ! i \<in> getName ` set joints then Fin 0 else velocity ?js1 ! i)"
      by auto
    have same: "name js ! k = getName j \<longleftrightarrow> k = ?i" if "k < length (name js)" for k
      using that ni find_distance_nth [OF Cons.prems(1) that] by auto
    have "\<forall>k<length (name js).
              position js' ! k =
                (if name js ! k \<in> getName ` set (j # joints)
                 then position (original_joint_state s) ! k else position js ! k) \<and>
              velocity js' ! k =
                (if name js ! k \<in> getName ` set (j # joints) then Fin 0 else velocity js ! k)"
    proof (intro allI impI)
      fix k assume k: "k < length (name js)"
      show "position js' ! k =
                (if name js ! k \<in> getName ` set (j # joints)
                 then position (original_joint_state s) ! k else position js ! k) \<and>
              velocity js' ! k =
                (if name js ! k \<in> getName ` set (j # joints) then Fin 0 else velocity js ! k)"
      proof (cases "k = ?i")
        case True
        with pt k ni Cons.prems show ?thesis by simp
      next
        case False
        with same [OF k] have "name js ! k \<noteq> getName j" by simp
        with pt k False Cons.prems show ?thesis by auto
      qed
    qed
    with step js' show ?thesis by simp
  qed
qed

text \<open>
  C6. For a joint state with distinct names and as many positions and velocities as names,
  which names every active joint. The joints that \<open>enforcePositionLimits\<close> returns are
  exactly the active joints that meet the halt criterion. When none is selected nothing
  changes. When some are selected the status is \<open>JOINT_BOUND\<close>, and the joints halted are
  the selected ones when the flag of the servo mode (\<open>halt_all_joints_in_joint_mode\<close> for a
  joint command, \<open>halt_all_joints_in_cartesian_mode\<close> for a Cartesian one) is false, and
  all active joints otherwise. A halted joint has the position of the snapshot taken
  before the update and the velocity 0; every other joint keeps its position and velocity.
\<close>

theorem C6_position_limit_halt:
  assumes "distinct (name (internal_joint_state s))"
    and "length (position (internal_joint_state s)) = length (name (internal_joint_state s))"
    and "length (velocity (internal_joint_state s)) = length (name (internal_joint_state s))"
    and "length (position (original_joint_state s)) = length (name (internal_joint_state s))"
    and "\<forall>j\<in>set (getActiveJointModels c). getName j \<in> set (name (internal_joint_state s))"
  shows
    "(let joint_state = internal_joint_state s;
          selected = filter (halt_candidate parameters joint_state) (getActiveJointModels c);
          halt_all = (case servo_type of
                        JOINT_SPACE \<Rightarrow> halt_all_joints_in_joint_mode parameters
                      | CARTESIAN_SPACE \<Rightarrow> halt_all_joints_in_cartesian_mode parameters);
          halted = (if selected = [] then []
                    else if halt_all then getActiveJointModels c else selected)
      in enforcePositionLimits c parameters joint_state = Inr selected \<and>
         (\<exists>s1. halt_for_position_limits c parameters servo_type s = Inr s1 \<and>
            status s1 = (if selected = [] then status s else JOINT_BOUND) \<and>
            name (internal_joint_state s1) = name joint_state \<and>
            (\<forall>i<length (name joint_state).
               position (internal_joint_state s1) ! i =
                 (if name joint_state ! i \<in> getName ` set halted
                  then position (original_joint_state s) ! i else position joint_state ! i) \<and>
               velocity (internal_joint_state s1) ! i =
                 (if name joint_state ! i \<in> getName ` set halted
                  then Fin 0 else velocity joint_state ! i))))"
proof -
  let ?js = "internal_joint_state s"
  let ?sel = "filter (halt_candidate parameters ?js) (getActiveJointModels c)"
  have sel: "enforcePositionLimits c parameters ?js = Inr ?sel"
    unfolding enforcePositionLimits_def
    using enforcePositionLimits_loop_filter [OF assms(2,3,5), of parameters 0 "[]"] by simp
  show ?thesis
  proof (cases "?sel = []")
    case True
    with sel show ?thesis by (simp add: halt_for_position_limits_def Let_def)
  next
    case False
    let ?halt_all = "(case servo_type of
                        JOINT_SPACE \<Rightarrow> halt_all_joints_in_joint_mode parameters
                      | CARTESIAN_SPACE \<Rightarrow> halt_all_joints_in_cartesian_mode parameters)"
    let ?halted = "if ?halt_all then getActiveJointModels c else ?sel"
    from suddenHalt_effect [OF assms(1-4), of ?halted]
    obtain js' where js': "suddenHalt s ?js ?halted = Inr js'" "name js' = name ?js"
      and pt: "\<forall>i<length (name ?js).
              position js' ! i =
                (if name ?js ! i \<in> getName ` set ?halted
                 then position (original_joint_state s) ! i else position ?js ! i) \<and>
              velocity js' ! i =
                (if name ?js ! i \<in> getName ` set ?halted then Fin 0 else velocity ?js ! i)"
      by blast
    have "halt_for_position_limits c parameters servo_type s =
            Inr (s\<lparr>status := JOINT_BOUND, internal_joint_state := js'\<rparr>)"
      using sel False js'(1)
      by (cases servo_type) (auto simp: halt_for_position_limits_def)
    with sel False js'(2) pt show ?thesis by (simp add: Let_def)
  qed
qed

theorem C6_position_limit_halt_witness:
  "enforcePositionLimits example_collaborators example_parameters
     \<lparr>name = [''joint_1'', ''joint_2''], position = [97 / 50, 1 / 10], velocity = [Fin 2, Fin 10]\<rparr> =
     Inr [\<lparr>getName = ''joint_1'',
           getVariableBoundsMsg = [\<lparr>min_position = - 2, max_position = 2\<rparr>]\<rparr>] \<and>
   (\<exists>s1. halt_for_position_limits example_collaborators example_parameters JOINT_SPACE
           (example_state
              \<lparr>internal_joint_state :=
                 \<lparr>name = [''joint_1'', ''joint_2''], position = [97 / 50, 1 / 10],
                  velocity = [Fin 2, Fin 10]\<rparr>\<rparr>) = Inr s1 \<and>
         status s1 = JOINT_BOUND \<and>
         position (internal_joint_state s1) ! 0 = 48 / 25 \<and>
         velocity (internal_joint_state s1) ! 0 = Fin 0 \<and>
         position (internal_joint_state s1) ! 1 = 1 / 10 \<and>
         velocity (internal_joint_state s1) ! 1 = Fin 10)"
proof -
  let ?js = "\<lparr>name = [''joint_1'', ''joint_2''], position = [97 / 50, 1 / 10],
              velocity = [Fin 2, Fin 10]\<rparr>"
  let ?s = "example_state\<lparr>internal_joint_state := ?js\<rparr>"
  have sel: "filter (halt_candidate example_parameters ?js) example_joint_models =
      [\<lparr>getName = ''joint_1'',
        getVariableBoundsMsg = [\<lparr>min_position = - 2, max_position = 2\<rparr>]\<rparr>]"
    by (simp add: halt_candidate_def example_parameters_def example_joint_models_def)
  have active: "getActiveJointModels example_collaborators = example_joint_models"
    by (simp add: example_collaborators_def)
  have halt_all: "halt_all_joints_in_joint_mode example_parameters = False"
    by (simp add: example_parameters_def)
  have orig: "position (original_joint_state example_state) = [48 / 25, 0]"
    by (simp add: example_state_def example_joint_state_def)
  have "distinct (name (internal_joint_state ?s))"
    "length (position (internal_joint_state ?s)) = length (name (internal_joint_state ?s))"
    "length (velocity (internal_joint_state ?s)) = length (name (internal_joint_state ?s))"
    "length (position (original_joint_state ?s)) = length (name (internal_joint_state ?s))"
    "\<forall>j\<in>set (getActiveJointModels example_collaborators).
       getName j \<in> set (name (internal_joint_state ?s))"
    by (simp_all add: example_state_def example_joint_state_def example_collaborators_def
        example_joint_models_def)
  from C6_position_limit_halt [OF this, of example_parameters JOINT_SPACE]
  show ?thesis
    by (auto simp: Let_def sel active halt_all orig numeral_2_eq_2 less_Suc_eq all_conj_distrib)
qed

section \<open>Collision scaling in internalServoUpdate\<close>

lemma applyJointUpdate_velocities_closed:
  assumes "length orig = length pos" "length vel = length pos" "i \<le> length pos"
  shows "applyJointUpdate_velocities period pos orig i vel =
           Inr (take i vel @ map (\<lambda>k. quotient (pos ! k - orig ! k) period) [i..<length pos])"
  using assms
proof (induction period pos orig i vel rule: applyJointUpdate_velocities.induct)
  case (1 period pos orig i vel)
  show ?case
  proof (cases "i < length pos")
    case False
    with "1.prems" show ?thesis
      by (subst applyJointUpdate_velocities.simps) simp
  next
    case True
    let ?v = "quotient (pos ! i - orig ! i) period"
    have "applyJointUpdate_velocities period pos orig (i + 1) (vel[i := ?v]) =
           Inr (take (i + 1) (vel[i := ?v]) @
                map (\<lambda>k. quotient (pos ! k - orig ! k) period) [i + 1..<length pos])"
      using "1.IH" [of "pos ! i" "orig ! i"] True "1.prems"
      by (simp add: vector_at_def)
    moreover have "take (i + 1) (vel[i := ?v]) = take i vel @ [?v]"
      using True "1.prems" by (simp add: take_Suc_conv_app_nth)
    moreover have "[i..<length pos] = i # [i + 1..<length pos]"
      using True by (simp add: upt_conv_Cons)
    ultimately show ?thesis
      using True "1.prems"
      by (subst applyJointUpdate_velocities.simps) (simp add: vector_at_def)
  qed
qed

lemma suddenHalt_total:
  assumes "length (position js) = length (name js)" "length (velocity js) = length (name js)"
    and "length (position (original_joint_state s)) = length (name js)"
  shows "\<exists>js'. suddenHalt s js joints = Inr js' \<and> name js' = name js \<and>
           length (position js') = length (name js) \<and> length (velocity js') = length (name js) \<and>
           (\<forall>i<length (name js). velocity js' ! i = velocity js ! i \<or> velocity js' ! i = Fin 0)"
  using assms
proof (induction joints arbitrary: js)
  case Nil
  then show ?case by simp
next
  case (Cons j joints)
  let ?i = "find_distance (getName j) (name js)"
  show ?case
  proof (cases "getName j \<in> set (name js)")
    case False
    then have "?i = length (name js)" by (rule find_distance_absent)
    with Cons.IH [OF Cons.prems] show ?thesis by auto
  next
    case True
    from find_distance_member [OF True] have i: "?i < length (name js)" by simp
    let ?js1 = "js\<lparr>position := (position js)[?i := position (original_joint_state s) ! ?i],
                    velocity := (velocity js)[?i := Fin 0]\<rparr>"
    have step: "suddenHalt s js (j # joints) = suddenHalt s ?js1 joints"
      using i Cons.prems by (simp add: Let_def vector_at_def)
    have "\<exists>js'. suddenHalt s ?js1 joints = Inr js' \<and> name js' = name ?js1 \<and>
           length (position js') = length (name ?js1) \<and>
           length (velocity js') = length (name ?js1) \<and>
           (\<forall>i<length (name ?js1). velocity js' ! i = velocity ?js1 ! i \<or> velocity js' ! i = Fin 0)"
      using Cons.prems by (intro Cons.IH) simp_all
    then obtain js' where js': "suddenHalt s ?js1 joints = Inr js'" "name js' = name js"
      "length (position js') = length (name js)" "length (velocity js') = length (name js)"
      and pt: "\<forall>k<length (name js). velocity js' ! k = velocity ?js1 ! k \<or> velocity js' ! k = Fin 0"
      by auto
    have "\<forall>k<length (name js). velocity js' ! k = velocity js ! k \<or> velocity js' ! k = Fin 0"
    proof (intro allI impI)
      fix k assume k: "k < length (name js)"
      with pt Cons.prems show "velocity js' ! k = velocity js ! k \<or> velocity js' ! k = Fin 0"
        by (cases "k = ?i") auto
    qed
    with step js' show ?thesis by simp
  qed
qed

lemma halt_candidate_needs_velocity:
  assumes "getName j \<in> set (name js)"
    and "\<forall>i<length (name js). velocity js ! i = Fin 0"
  shows "\<not> halt_candidate p js j"
proof -
  from find_distance_member [OF assms(1)] assms(2)
  have "velocity js ! find_distance (getName j) (name js) = Fin 0" by simp
  then show ?thesis by (simp add: halt_candidate_def Let_def split: list.splits)
qed

lemma halt_for_position_limits_total:
  assumes "length (position (internal_joint_state s)) = length (name (internal_joint_state s))"
    and "length (velocity (internal_joint_state s)) = length (name (internal_joint_state s))"
    and "length (position (original_joint_state s)) = length (name (internal_joint_state s))"
    and "\<forall>j\<in>set (getActiveJointModels c). getName j \<in> set (name (internal_joint_state s))"
  shows "\<exists>s1. halt_for_position_limits c p servo_type s = Inr s1 \<and>
           status s1 =
             (if filter (halt_candidate p (internal_joint_state s)) (getActiveJointModels c) = []
              then status s else JOINT_BOUND) \<and>
           smoother s1 = smoother s \<and>
           gazebo_redundant_message_count s1 = gazebo_redundant_message_count s \<and>
           num_joints s1 = num_joints s \<and>
           length (velocity (internal_joint_state s1)) = length (name (internal_joint_state s)) \<and>
           (\<forall>i<length (name (internal_joint_state s)).
              velocity (internal_joint_state s1) ! i = velocity (internal_joint_state s) ! i \<or>
              velocity (internal_joint_state s1) ! i = Fin 0)"
proof -
  let ?js = "internal_joint_state s"
  let ?sel = "filter (halt_candidate p ?js) (getActiveJointModels c)"
  have sel: "enforcePositionLimits c p ?js = Inr ?sel"
    unfolding enforcePositionLimits_def
    using enforcePositionLimits_loop_filter [OF assms(1,2,4), of p 0 "[]"] by simp
  show ?thesis
  proof (cases "?sel = []")
    case True
    with sel assms show ?thesis by (simp add: halt_for_position_limits_def)
  next
    case False
    let ?halted = "if (servo_type = JOINT_SPACE \<and> \<not> halt_all_joints_in_joint_mode p) \<or>
                      (servo_type = CARTESIAN_SPACE \<and> \<not> halt_all_joints_in_cartesian_mode p)
                   then ?sel else getActiveJointModels c"
    from suddenHalt_total [OF assms(1-3), of ?halted]
    obtain js' where js': "suddenHalt s ?js ?halted = Inr js'"
      "length (velocity js') = length (name ?js)"
      "\<forall>i<length (name ?js). velocity js' ! i = velocity ?js ! i \<or> velocity js' ! i = Fin 0"
      by blast
    have "halt_for_position_limits c p servo_type s =
            Inr (s\<lparr>status := JOINT_BOUND, internal_joint_state := js'\<rparr>)"
      using sel False js'(1) by (auto simp: halt_for_position_limits_def)
    with False js'(2,3) show ?thesis by simp
  qed
qed

lemma map2_add_zero:
  "length xs = length ys \<Longrightarrow> map2 (+) xs (map (\<lambda>d. d * (0::real)) ys) = xs"
  by (induction xs ys rule: list_induct2) simp_all

lemma outgoing_velocities:
  assumes "points traj = []"
  shows "\<forall>point\<in>set (points
            (if use_gazebo p
             then insertRedundantPointsIntoTrajectory p (composeJointTrajMessage p s js traj) count
             else composeJointTrajMessage p s js traj)).
           velocities point = (if publish_joint_velocities p then velocity js else [])"
  using assms
  by (auto simp: composeJointTrajMessage_def insertRedundantPointsIntoTrajectory_def Let_def
      resize_def)

text \<open>
  C2, as stated, fails. With a collision scale of 0 the joint delta is zero, but the
  velocities are computed from the smoothed positions, and a joint near its bound is
  halted afterwards. On the two-joint servo, whose smoother averages the snapshot
  \<open>[1.92, 0]\<close> with its last output \<open>[1.96, 0.2]\<close>: the smoothed positions are
  \<open>[1.94, 0.1]\<close>, the velocities \<open>[2, 10]\<close>; joint 1 is within the margin of its upper
  bound 2 and moving towards it, so it is halted. The status is \<open>JOINT_BOUND\<close>, not
  \<open>HALT_FOR_COLLISION\<close>, and the outgoing velocity of joint 2 is 10.
\<close>

theorem C2_halt_for_collision_counterexample:
  "\<exists>s1 delta outgoing.
     internalServoUpdate example_collaborators example_parameters
       (example_state\<lparr>wait_for_servo_commands := False, collision_velocity_scale := 0\<rparr>)
       [1 / 100, 1 / 100] empty_trajectory
       JOINT_SPACE = Inr (True, s1, delta, outgoing) \<and>
     status s1 = JOINT_BOUND \<and>
     map velocities (points outgoing) = [[Fin 0, Fin 10]]"
  by (simp add: internalServoUpdate_def applyJointUpdate_def applyJointUpdate_velocities.simps
      halt_for_position_limits_def enforcePositionLimits_def composeJointTrajMessage_def
      example_state_def example_joint_state_def example_collaborators_def
      example_parameters_def example_joint_models_def empty_trajectory_def
      satisfiesPositionBounds_def vector_at_def quotient_def Let_def)

text \<open>
  C2, amended. For a cycle that runs \<open>internalServoUpdate\<close> with a nonzero publish period,
  joint vectors of one length and a smoother that keeps that length: the update succeeds;
  the smoother receives the snapshot positions plus the joint delta multiplied by
  \<open>collision_velocity_scale\<close>, and the delta handed on is the scaled one; the status is
  \<open>HALT_FOR_COLLISION\<close> for a scale of 0 and \<open>DECELERATE_FOR_COLLISION\<close> for a scale
  strictly between 0 and 1, unless a joint of the updated state meets the halt criterion,
  in which case it is \<open>JOINT_BOUND\<close>; and when the scale is 0 and the smoother returns the
  snapshot positions unchanged, the status is \<open>HALT_FOR_COLLISION\<close> and every velocity of
  every outgoing trajectory point is 0.
\<close>

theorem C2_collision_scaling:
  assumes "publish_period parameters \<noteq> 0"
    and "length delta = length (position (original_joint_state s))"
    and "length (velocity (original_joint_state s)) = length (position (original_joint_state s))"
    and "length (name (original_joint_state s)) = length (position (original_joint_state s))"
    and "length (fst (doSmoothing c (smoother s)
                   (map2 (+) (position (original_joint_state s))
                      (map (\<lambda>d. d * collision_velocity_scale s) delta)))) =
         length (position (original_joint_state s))"
    and "\<forall>j\<in>set (getActiveJointModels c). getName j \<in> set (name (original_joint_state s))"
  shows
    "(let original = original_joint_state s;
          scale = collision_velocity_scale s;
          scaled = map (\<lambda>d. d * scale) delta;
          smoothed = doSmoothing c (smoother s) (map2 (+) (position original) scaled);
          updated = original
            \<lparr>position := fst smoothed,
             velocity := map (\<lambda>k. Fin ((fst smoothed ! k - position original ! k) /
                                        publish_period parameters))
                           [0..<length (position original)]\<rparr>;
          collision_status =
            (if 0 < scale \<and> scale < 1 then DECELERATE_FOR_COLLISION
             else if scale = 0 then HALT_FOR_COLLISION else status s)
      in \<exists>s1 outgoing.
           internalServoUpdate c parameters s delta empty_trajectory servo_type =
             Inr (True, s1, enforceVelocityLimits c scaled, outgoing) \<and>
           smoother s1 = snd smoothed \<and>
           status s1 =
             (if filter (halt_candidate parameters updated) (getActiveJointModels c) = []
              then collision_status else JOINT_BOUND) \<and>
           (scale = 0 \<and> fst (doSmoothing c (smoother s) (position original)) = position original
              \<longrightarrow> status s1 = HALT_FOR_COLLISION \<and>
                  (\<forall>point\<in>set (points outgoing). \<forall>v\<in>set (velocities point). v = Fin 0)))"
proof -
  let ?orig = "original_joint_state s"
  let ?scale = "collision_velocity_scale s"
  let ?scaled = "map (\<lambda>d. d * ?scale) delta"
  let ?sm = "doSmoothing c (smoother s) (map2 (+) (position ?orig) ?scaled)"
  let ?n = "length (position ?orig)"
  let ?vel = "map (\<lambda>k. Fin ((fst ?sm ! k - position ?orig ! k) / publish_period parameters))
                [0..<?n]"
  let ?upd = "?orig\<lparr>position := fst ?sm, velocity := ?vel\<rparr>"
  let ?cst = "if 0 < ?scale \<and> ?scale < 1 then DECELERATE_FOR_COLLISION
              else if ?scale = 0 then HALT_FOR_COLLISION else status s"
  let ?s2 = "(s\<lparr>internal_joint_state := ?orig\<rparr>)\<lparr>status := ?cst\<rparr>"
  let ?s4 = "?s2\<lparr>internal_joint_state := ?upd, smoother := snd ?sm, updated_filters := True\<rparr>"
  have vels: "applyJointUpdate_velocities (publish_period parameters) (fst ?sm) (position ?orig) 0
                (velocity ?orig) = Inr ?vel"
    using applyJointUpdate_velocities_closed
            [where period = "publish_period parameters" and orig = "position ?orig"
               and pos = "fst ?sm" and vel = "velocity ?orig" and i = 0]
      assms(1,3,5)
    by (simp add: quotient_def)
  have applied: "applyJointUpdate c parameters ?s2 ?scaled ?orig = Inr (True, ?upd, snd ?sm)"
    using assms(2,3) vels by (simp add: applyJointUpdate_def Let_def)
  from halt_for_position_limits_total [of ?s4 c parameters servo_type] assms(4,5,6)
  obtain s5 where s5: "halt_for_position_limits c parameters servo_type ?s4 = Inr s5"
    "status s5 = (if filter (halt_candidate parameters ?upd) (getActiveJointModels c) = []
                  then ?cst else JOINT_BOUND)"
    "smoother s5 = snd ?sm"
    "length (velocity (internal_joint_state s5)) = length (name ?orig)"
    and pt: "\<forall>i<length (name ?orig).
              velocity (internal_joint_state s5) ! i = ?vel ! i \<or>
              velocity (internal_joint_state s5) ! i = Fin 0"
    by auto
  let ?composed = "composeJointTrajMessage parameters s5 (internal_joint_state s5) empty_trajectory"
  let ?out = "if use_gazebo parameters
              then insertRedundantPointsIntoTrajectory parameters ?composed
                     (gazebo_redundant_message_count s5)
              else ?composed"
  have s2_eq: "(let s1 = s\<lparr>internal_joint_state := ?orig\<rparr>; collision_scale = collision_velocity_scale s1
         in (if collision_scale > 0 \<and> collision_scale < 1
                then s1\<lparr>status := DECELERATE_FOR_COLLISION\<rparr>
                else if collision_scale = 0 then s1\<lparr>status := HALT_FOR_COLLISION\<rparr>
                else s1)) = ?s2"
    by (simp add: Let_def)
  have run: "internalServoUpdate c parameters s delta empty_trajectory servo_type =
          Inr (True, s5, enforceVelocityLimits c ?scaled, ?out)"
  proof -
    consider (decelerate) "0 < ?scale \<and> ?scale < 1" | (halt) "?scale = 0"
      | (other) "\<not> (0 < ?scale \<and> ?scale < 1)" "?scale \<noteq> 0"
      by blast
    then show ?thesis
    proof cases
      case decelerate
      with applied s5(1) show ?thesis by (simp add: internalServoUpdate_def Let_def)
    next
      case halt
      with applied s5(1) show ?thesis by (simp add: internalServoUpdate_def Let_def)
    next
      case other
      from other(1) have no: "(0 < ?scale \<and> ?scale < 1) = False" by simp
      from applied s5(1) other(2) show ?thesis
        by (simp add: internalServoUpdate_def Let_def no)
    qed
  qed
  have zero: "status s5 = HALT_FOR_COLLISION \<and>
          (\<forall>point\<in>set (points ?out). \<forall>v\<in>set (velocities point). v = Fin 0)"
    if z: "?scale = 0" and same: "fst (doSmoothing c (smoother s) (position ?orig)) = position ?orig"
  proof -
    have inc: "map2 (+) (position ?orig) ?scaled = position ?orig"
      using z assms(2) map2_add_zero [of "position ?orig" delta] by simp
    with same have sm: "fst ?sm = position ?orig" by simp
    then have velz: "\<forall>i<?n. ?vel ! i = Fin 0" by simp
    then have "\<forall>i<length (name ?upd). velocity ?upd ! i = Fin 0"
      using assms(4) by simp
    then have "\<forall>j\<in>set (getActiveJointModels c). \<not> halt_candidate parameters ?upd j"
      using halt_candidate_needs_velocity [of _ ?upd parameters] assms(6) by simp
    then have "filter (halt_candidate parameters ?upd) (getActiveJointModels c) = []"
      by (simp add: filter_empty_conv)
    with s5(2) z have st: "status s5 = HALT_FOR_COLLISION" by simp
    have "\<forall>i<length (velocity (internal_joint_state s5)). velocity (internal_joint_state s5) ! i = Fin 0"
      using pt velz s5(4) assms(4) by auto
    then have "\<forall>v\<in>set (velocity (internal_joint_state s5)). v = Fin 0"
      by (auto simp: in_set_conv_nth)
    moreover have "points empty_trajectory = []" by (simp add: empty_trajectory_def)
    note outgoing_velocities [OF this, of parameters s5 "internal_joint_state s5"
        "gazebo_redundant_message_count s5"]
    ultimately have "\<forall>point\<in>set (points ?out). \<forall>v\<in>set (velocities point). v = Fin 0"
      by (auto split: if_splits)
    with st show ?thesis by simp
  qed
  show ?thesis
    unfolding Let_def
    apply (rule exI [of _ s5])
    apply (rule exI [of _ ?out])
    using run s5(2,3) zero by blast
qed

theorem C2_collision_scaling_witness:
  "\<exists>s1 outgoing.
     internalServoUpdate example_collaborators example_parameters
       (example_state\<lparr>collision_velocity_scale := 0, smoother := [48 / 25, 0]\<rparr>)
       [1 / 100, 1 / 50] empty_trajectory JOINT_SPACE = Inr (True, s1, [0, 0], outgoing) \<and>
     status s1 = HALT_FOR_COLLISION \<and>
     (\<forall>point\<in>set (points outgoing). \<forall>v\<in>set (velocities point). v = Fin 0)"
proof -
  let ?s = "example_state\<lparr>collision_velocity_scale := 0, smoother := [48 / 25, 0]\<rparr>"
  have "publish_period example_parameters \<noteq> 0"
    "length [1 / 100, 1 / 50 :: real] = length (position (original_joint_state ?s))"
    "length (velocity (original_joint_state ?s)) = length (position (original_joint_state ?s))"
    "length (name (original_joint_state ?s)) = length (position (original_joint_state ?s))"
    "length (fst (doSmoothing example_collaborators (smoother ?s)
                   (map2 (+) (position (original_joint_state ?s))
                      (map (\<lambda>d. d * collision_velocity_scale ?s) [1 / 100, 1 / 50])))) =
         length (position (original_joint_state ?s))"
    "\<forall>j\<in>set (getActiveJointModels example_collaborators).
       getName j \<in> set (name (original_joint_state ?s))"
    by (simp_all add: example_state_def example_joint_state_def example_collaborators_def
        example_joint_models_def example_parameters_def)
  from C2_collision_scaling [OF this, of JOINT_SPACE]
  obtain s1 outgoing where
    "internalServoUpdate example_collaborators example_parameters ?s [1 / 100, 1 / 50]
       empty_trajectory JOINT_SPACE =
     Inr (True, s1,
          enforceVelocityLimits example_collaborators
            (map (\<lambda>d. d * collision_velocity_scale ?s) [1 / 100, 1 / 50]), outgoing)"
    "collision_velocity_scale ?s = 0 \<and>
     fst (doSmoothing example_collaborators (smoother ?s) (position (original_joint_state ?s))) =
       position (original_joint_state ?s) \<longrightarrow>
     status s1 = HALT_FOR_COLLISION \<and>
     (\<forall>point\<in>set (points outgoing). \<forall>v\<in>set (velocities point). v = Fin 0)"
    unfolding Let_def by blast
  moreover have "enforceVelocityLimits example_collaborators
            (map (\<lambda>d. d * collision_velocity_scale ?s) [1 / 100, 1 / 50]) = [0, 0]"
    by (simp add: example_collaborators_def)
  moreover have "collision_velocity_scale ?s = 0 \<and>
     fst (doSmoothing example_collaborators (smoother ?s) (position (original_joint_state ?s))) =
       position (original_joint_state ?s)"
    by (simp add: example_state_def example_joint_state_def example_collaborators_def)
  ultimately show ?thesis by (intro exI [of _ s1] exI [of _ outgoing]) simp
qed

end
